theory Spec2Isabelle
  imports Complex_Main "HOL-Library.AList"
begin

section \<open>Values, devices and the shared state of \<open>sensor.py\<close>\<close>

text \<open>
  The exceptions that the modelled code can raise.  \<open>KeyError\<close> is listed although no
  function below produces it: the code reads its dictionaries with \<open>.get(key, 0)\<close> only.
\<close>

datatype error =
    NameError | AttributeError | TypeError | ValueError | OverflowError
  | UnicodeDecodeError | RecursionError | OSError | KeyError

text \<open>
  What \<open>json.load\<close> can return, and therefore what the two class attributes
  \<open>_cached_monthly_energy_data\<close> and \<open>_cached_daily_energy_data\<close> can hold.  A Python
  \<open>dict\<close> is an association list in insertion order whose lookups take the first entry of
  a key.  Python numbers (\<open>int\<close> and \<open>float\<close>) are modelled as exact reals.
\<close>

datatype json =
    JNull | JBool bool | JNum real | JStr string
  | JArr "json list" | JObj "(string \<times> json) list"

text \<open>\<open>d.get(key, default)\<close>: only a \<open>dict\<close> has the method.\<close>

fun py_get :: "json \<Rightarrow> string \<Rightarrow> json \<Rightarrow> error + json" where
  "py_get (JObj kvs) k dflt = Inr (case map_of kvs k of None \<Rightarrow> dflt | Some v \<Rightarrow> v)"
| "py_get _ k dflt = Inl AttributeError"

text \<open>
  The operand of \<open>+\<close> and \<open>-\<close> next to a number: a number, or a \<open>bool\<close> (which Python
  counts as 0 or 1); every other value makes the arithmetic raise \<open>TypeError\<close>.
\<close>

fun as_number :: "json \<Rightarrow> real option" where
  "as_number (JNum r) = Some r"
| "as_number (JBool b) = Some (if b then 1 else 0)"
| "as_number _ = None"

definition py_add :: "real \<Rightarrow> json \<Rightarrow> error + real" where
  "py_add x j = (case as_number j of None \<Rightarrow> Inl TypeError | Some y \<Rightarrow> Inr (x + y))"

definition py_sub :: "real \<Rightarrow> json \<Rightarrow> error + real" where
  "py_sub x j = (case as_number j of None \<Rightarrow> Inl TypeError | Some y \<Rightarrow> Inr (x - y))"

text \<open>\<open>str(channel)\<close> for an \<open>int\<close>: its decimal digits, with a minus sign when negative.\<close>

definition digit_char :: "nat \<Rightarrow> char" where
  "digit_char n = ''0123456789'' ! n"

fun digits :: "nat \<Rightarrow> string" where
  "digits n = (if n < 10 then [digit_char n] else digits (n div 10) @ [digit_char (n mod 10)])"

declare digits.simps [simp del]

definition str_int :: "int \<Rightarrow> string" where
  "str_int i = (if i < 0 then CHR ''-'' # digits (nat (- i)) else digits (nat i))"

text \<open>
  The device object (\<open>coordinator.device\<close>), as far as the code uses it:
  \<open>is_electricity\<close> is \<open>isinstance(device, ElectricityXMix)\<close> and \<open>get_value\<close> is the
  library's \<open>get_value(channel, subkey)\<close>, whose \<open>None\<close> is an absent reading.
\<close>

record device =
  dev_name :: string
  device_type :: string
  is_electricity :: bool
  channels :: "int list"
  get_value :: "int \<Rightarrow> string \<Rightarrow> real option"

text \<open>\<open>RefossSensorEntityDescription\<close>, with the fields the code reads.\<close>

record description =
  key :: string
  translation_key :: string
  subkey :: string
  fn :: "real \<Rightarrow> real"

definition SENSORS_EM :: "description list" where
  "SENSORS_EM =
    [\<lparr>key = ''power'', translation_key = ''power'', subkey = ''power'',
       fn = (\<lambda>x. x / 1000)\<rparr>,
     \<lparr>key = ''voltage'', translation_key = ''voltage'', subkey = ''voltage'',
       fn = (\<lambda>x. x)\<rparr>,
     \<lparr>key = ''current'', translation_key = ''current'', subkey = ''current'',
       fn = (\<lambda>x. x)\<rparr>,
     \<lparr>key = ''factor'', translation_key = ''power_factor'', subkey = ''factor'',
       fn = (\<lambda>x. x)\<rparr>,
     \<lparr>key = ''energy'', translation_key = ''this_month_energy'', subkey = ''mConsume'',
       fn = (\<lambda>x. x)\<rparr>,
     \<lparr>key = ''this_day_energy'', translation_key = ''this_day_energy'',
       subkey = ''mConsume'', fn = (\<lambda>x. x)\<rparr>]"

text \<open>A \<open>RefossSensor\<close> instance: its device, its channel and its description.\<close>

record sensor =
  sensor_device :: device
  channel_id :: int
  entity_description :: description

definition monthly_energy_file_path :: "device \<Rightarrow> string" where
  "monthly_energy_file_path d = ''/config/'' @ dev_name d @ ''_monthly_energy.json''"

definition daily_energy_file_path :: "device \<Rightarrow> string" where
  "daily_energy_file_path d = ''/config/'' @ dev_name d @ ''_daily_energy.json''"

text \<open>
  A file as the code meets it when it opens the path with \<open>encoding="utf-8"\<close> and hands
  it to \<open>json.load\<close>: absent (\<open>FileNotFoundError\<close>), present but refusing to be read
  (another \<open>OSError\<close>), bytes that are not UTF-8 (\<open>UnicodeDecodeError\<close>), text that is not
  JSON (\<open>JSONDecodeError\<close>), JSON text nested deeper than the parser's recursion goes
  (\<open>RecursionError\<close>), or a JSON document with the value it parses to.
\<close>

datatype disk_file = Missing | Unreadable | Undecodable | Malformed | TooDeep | Holds json

text \<open>
  How the file system answers \<open>open(path, "w")\<close> followed by \<open>json.dump\<close>: the document
  is written; or \<open>open\<close> raises \<open>IOError\<close> and the file is untouched; or the file is
  opened, which truncates it, and \<open>IOError\<close> is raised before the document is complete.
\<close>

datatype write_outcome = WriteOk | OpenFails | WriteFails

datatype level = Info | Error | Debug

record watcher =
  sensor_instance :: sensor
  file_paths :: "string list"

text \<open>
  The state the functions of \<open>sensor.py\<close> share: the coordinators' devices
  (\<open>hass.data[DOMAIN][COORDINATORS]\<close>), the files, the class attributes of
  \<open>RefossSensor\<close> (two caches and the observer), the messages given to \<open>_LOGGER\<close>, and
  whether the directory of the files can be watched: when it cannot (it does not
  exist), starting the observer raises \<open>FileNotFoundError\<close>, an \<open>OSError\<close>.
\<close>

record state =
  coordinators :: "device list"
  files :: "string \<Rightarrow> disk_file"
  open_w :: "string \<Rightarrow> write_outcome"
  cached_monthly_energy_data :: json
  cached_daily_energy_data :: json
  observer :: "watcher option"
  logged :: "(level \<times> string) list"
  can_watch :: bool

section \<open>The derivation read: \<open>RefossSensor.native_value\<close>\<close>

text \<open>\<open>device.get_value(channel, subkey) or 0\<close>: \<open>None\<close> and a zero reading both give 0.\<close>

definition value_or_0 :: "device \<Rightarrow> int \<Rightarrow> string \<Rightarrow> real" where
  "value_or_0 d c sk =
     (case get_value d c sk of None \<Rightarrow> 0 | Some x \<Rightarrow> if x = 0 then 0 else x)"

definition native_value :: "sensor \<Rightarrow> state \<Rightarrow> error + real" where
  "native_value sn s =
    (let device_value = value_or_0 (sensor_device sn) (channel_id sn)
                          (subkey (entity_description sn)) in
     case py_get (cached_daily_energy_data s) (str_int (channel_id sn)) (JNum 0) of
       Inl e \<Rightarrow> Inl e
     | Inr daily_stored_value \<Rightarrow>
     case py_get (cached_monthly_energy_data s) (str_int (channel_id sn)) (JNum 0) of
       Inl e \<Rightarrow> Inl e
     | Inr monthly_stored_value \<Rightarrow>
       if translation_key (entity_description sn) = ''this_day_energy'' then
         (case py_add device_value monthly_stored_value of
            Inl e \<Rightarrow> Inl e
          | Inr t \<Rightarrow>
            (case py_sub t daily_stored_value of
               Inl e \<Rightarrow> Inl e
             | Inr v \<Rightarrow> Inr (fn (entity_description sn) v)))
       else if translation_key (entity_description sn) = ''this_month_energy'' then
         (case py_add device_value monthly_stored_value of
            Inl e \<Rightarrow> Inl e
          | Inr v \<Rightarrow> Inr (fn (entity_description sn) v))
       else Inr (fn (entity_description sn) device_value))"

section \<open>The offset files: loading and writing\<close>

definition log_msg :: "level \<Rightarrow> string \<Rightarrow> state \<Rightarrow> state" where
  "log_msg l m s = s\<lparr>logged := logged s @ [(l, m)]\<rparr>"

text \<open>
  A function that can raise returns the state it reached together with the exception, if
  any: what it did before raising stays done.
\<close>

type_synonym result = "error option \<times> state"

definition and_then :: "result \<Rightarrow> (state \<Rightarrow> result) \<Rightarrow> result" where
  "and_then r f = (case r of (None, s) \<Rightarrow> f s | (Some e, s) \<Rightarrow> (Some e, s))"

text \<open>The fallback \<open>{str(channel): 0 for channel in self.coordinator.device.channels}\<close>.\<close>

definition zero_defaults :: "int list \<Rightarrow> (string \<times> json) list" where
  "zero_defaults cs = fold (\<lambda>channel d. AList.update (str_int channel) (JNum 0) d) cs []"

definition load_energy_data :: "sensor \<Rightarrow> state \<Rightarrow> result" where
  "load_energy_data sn s =
    (case files s (monthly_energy_file_path (sensor_device sn)) of
       Holds j \<Rightarrow>
         (None, log_msg Info ''Loaded stored energy data from %s''
                  (s\<lparr>cached_monthly_energy_data := j\<rparr>))
     | Undecodable \<Rightarrow> (Some UnicodeDecodeError, s)
     | TooDeep \<Rightarrow> (Some RecursionError, s)
     | _ \<Rightarrow>
         (None, (log_msg Error ''Failed to read energy data file. Using default values.'' s)
                  \<lparr>cached_monthly_energy_data :=
                     JObj (zero_defaults (channels (sensor_device sn)))\<rparr>))"

definition load_daily_energy_data :: "sensor \<Rightarrow> state \<Rightarrow> result" where
  "load_daily_energy_data sn s =
    (case files s (daily_energy_file_path (sensor_device sn)) of
       Holds j \<Rightarrow>
         (None, log_msg Info ''Loaded daily energy data from %s''
                  (s\<lparr>cached_daily_energy_data := j\<rparr>))
     | Undecodable \<Rightarrow> (Some UnicodeDecodeError, s)
     | TooDeep \<Rightarrow> (Some RecursionError, s)
     | _ \<Rightarrow>
         (None, (log_msg Error ''Failed to read daily energy data file. Using default values.'' s)
                  \<lparr>cached_daily_energy_data :=
                     JObj (zero_defaults (channels (sensor_device sn)))\<rparr>))"

text \<open>
  \<open>json.dump\<close> of a dictionary keyed by the channel numbers: the document's keys are the
  channels' \<open>str\<close>, so the file parses back to a dictionary keyed by strings.
\<close>

definition json_of_energy_data :: "(int \<times> real) list \<Rightarrow> json" where
  "json_of_energy_data d = JObj (map (\<lambda>(k, v). (str_int k, JNum v)) d)"

text \<open>
  The block \<open>with open(file_path, "w", encoding="utf-8") as file: json.dump(data, file)\<close>:
  \<open>True\<close> when the document was written, \<open>False\<close> when \<open>IOError\<close> was raised.
\<close>

definition dump_file :: "string \<Rightarrow> json \<Rightarrow> state \<Rightarrow> bool \<times> state" where
  "dump_file file_path doc s =
    (case open_w s file_path of
       WriteOk \<Rightarrow> (True, s\<lparr>files := (files s)(file_path := Holds doc)\<rparr>)
     | OpenFails \<Rightarrow> (False, s)
     | WriteFails \<Rightarrow> (False, s\<lparr>files := (files s)(file_path := Malformed)\<rparr>))"

text \<open>The same block inside \<open>try: ... except IOError\<close>, with the two log messages.\<close>

definition try_dump :: "string \<Rightarrow> json \<Rightarrow> string \<Rightarrow> string \<Rightarrow> state \<Rightarrow> state" where
  "try_dump file_path doc saved failed s =
    (case dump_file file_path doc s of
       (True, s') \<Rightarrow> log_msg Info saved s'
     | (False, s') \<Rightarrow> log_msg Error failed s')"

section \<open>The three reset jobs\<close>

text \<open>
  Each job is modelled up to its \<open>await asyncio.sleep(3)\<close>; what it arms next is the
  scheduler's part.  In \<open>save_user_reset\<close> the value read is \<open>get_value(...) or 0\<close>, never
  \<open>None\<close>, so the stored value is always \<open>-1 * device_value\<close>.
\<close>

definition user_energy_data :: "device \<Rightarrow> (int \<times> real) list" where
  "user_energy_data d =
    fold (\<lambda>channel energy_data.
            AList.update channel (- 1 * value_or_0 d channel ''mConsume'') energy_data)
         (channels d) []"

definition save_user_reset_device :: "device \<Rightarrow> state \<Rightarrow> state" where
  "save_user_reset_device d s =
    (if \<not> is_electricity d then s
     else try_dump (monthly_energy_file_path d) (json_of_energy_data (user_energy_data d))
            ''Saved monthly energy data (inverted) for device %s''
            ''Failed to save monthly energy data: %s'' s)"

definition save_user_reset :: "state \<Rightarrow> result" where
  "save_user_reset s = (None, fold save_user_reset_device (coordinators s) s)"

text \<open>
  \<open>save_device_reset\<close>: the stored value is the device value plus the cached monthly
  offset.  The lookup and the addition can raise, outside the \<open>try\<close>.
\<close>

fun device_energy_data ::
  "json \<Rightarrow> device \<Rightarrow> int list \<Rightarrow> (int \<times> real) list \<Rightarrow> error + (int \<times> real) list" where
  "device_energy_data cache d [] energy_data = Inr energy_data"
| "device_energy_data cache d (channel # cs) energy_data =
    (let device_value = value_or_0 d channel ''mConsume'' in
     case py_get cache (str_int channel) (JNum 0) of
       Inl e \<Rightarrow> Inl e
     | Inr stored_value \<Rightarrow>
       (case py_add device_value stored_value of
          Inl e \<Rightarrow> Inl e
        | Inr adjusted_value \<Rightarrow>
            device_energy_data cache d cs (AList.update channel adjusted_value energy_data)))"

fun save_device_reset_from :: "device list \<Rightarrow> state \<Rightarrow> result" where
  "save_device_reset_from [] s = (None, s)"
| "save_device_reset_from (d # ds) s =
    (if \<not> is_electricity d then save_device_reset_from ds s
     else case device_energy_data (cached_monthly_energy_data s) d (channels d) [] of
            Inl e \<Rightarrow> (Some e, s)
          | Inr energy_data \<Rightarrow>
              save_device_reset_from ds
                (try_dump (monthly_energy_file_path d) (json_of_energy_data energy_data)
                   ''Saved adjusted energy data for device %s''
                   ''Failed to save adjusted energy data: %s'' s))"

definition save_device_reset :: "state \<Rightarrow> result" where
  "save_device_reset s = save_device_reset_from (coordinators s) s"

text \<open>
  \<open>save_daily_energy\<close>.  The loop body reads \<open>now.day\<close>, but \<open>now\<close> is a local variable of
  the three \<open>schedule_\<close> functions only: in \<open>save_daily_energy\<close> it is a free name that neither
  \<open>async_setup_entry\<close> nor the module binds, so evaluating it raises \<open>NameError\<close>.  This
  happens for the first channel of the first electricity device that has one, after the
  cache lookup and the addition of lines 205 and 206; the assignments of lines 209 to 213
  (to \<open>daily_energy_data\<close> and to the daily cache) are never reached.  A device without
  channels gets the empty dictionary written.
\<close>

fun daily_energy_data ::
  "json \<Rightarrow> int \<Rightarrow> device \<Rightarrow> int list \<Rightarrow> error + (int \<times> real) list" where
  "daily_energy_data cache user_reset_day d [] = Inr []"
| "daily_energy_data cache user_reset_day d (channel # cs) =
    (let device_value = value_or_0 d channel ''mConsume'' in
     case py_get cache (str_int channel) (JNum 0) of
       Inl e \<Rightarrow> Inl e
     | Inr stored_value \<Rightarrow>
       (case py_add device_value stored_value of
          Inl e \<Rightarrow> Inl e
        | Inr adjusted_value \<Rightarrow> Inl NameError))"

fun save_daily_energy_from :: "int \<Rightarrow> device list \<Rightarrow> state \<Rightarrow> result" where
  "save_daily_energy_from user_reset_day [] s = (None, s)"
| "save_daily_energy_from user_reset_day (d # ds) s =
    (if \<not> is_electricity d then save_daily_energy_from user_reset_day ds s
     else case daily_energy_data (cached_monthly_energy_data s) user_reset_day d
                 (channels d) of
            Inl e \<Rightarrow> (Some e, s)
          | Inr data \<Rightarrow>
              save_daily_energy_from user_reset_day ds
                (try_dump (daily_energy_file_path d) (json_of_energy_data data)
                   ''Updated daily energy file for device %s''
                   ''Failed to update daily energy file: %s'' s))"

definition save_daily_energy :: "int \<Rightarrow> state \<Rightarrow> result" where
  "save_daily_energy user_reset_day s =
     save_daily_energy_from user_reset_day (coordinators s) s"

section \<open>Creating a sensor and watching the files\<close>

text \<open>
  The default data of \<open>ensure_file_exists\<close> with \<open>use_sensor_values\<close>: the device value
  plus the cached monthly offset, keyed by \<open>str(channel)\<close>.
\<close>

fun sensor_default_data ::
  "json \<Rightarrow> device \<Rightarrow> int list \<Rightarrow> (string \<times> json) list \<Rightarrow> error + (string \<times> json) list" where
  "sensor_default_data cache d [] default_data = Inr default_data"
| "sensor_default_data cache d (channel # cs) default_data =
    (let device_value = value_or_0 d channel ''mConsume'' in
     case py_get cache (str_int channel) (JNum 0) of
       Inl e \<Rightarrow> Inl e
     | Inr stored_value \<Rightarrow>
       (case py_add device_value stored_value of
          Inl e \<Rightarrow> Inl e
        | Inr v \<Rightarrow>
            sensor_default_data cache d cs (AList.update (str_int channel) (JNum v) default_data)))"

text \<open>\<open>os.path.exists\<close> holds of every file but a missing one.\<close>

definition ensure_file_exists :: "sensor \<Rightarrow> string \<Rightarrow> bool \<Rightarrow> state \<Rightarrow> result" where
  "ensure_file_exists sn file_path use_sensor_values s =
    (if files s file_path \<noteq> Missing then (None, s)
     else case (if use_sensor_values
                then sensor_default_data (cached_monthly_energy_data s) (sensor_device sn)
                       (channels (sensor_device sn)) []
                else Inr (zero_defaults (channels (sensor_device sn)))) of
            Inl e \<Rightarrow> (Some e, s)
          | Inr default_data \<Rightarrow>
              (None, try_dump file_path (JObj default_data)
                       ''Created new energy data file: %s with %s''
                       ''Failed to create energy data file: %s'' s))"

text \<open>
  \<open>start_watching_file\<close>: the class attribute \<open>_observer\<close> is assigned before the observer
  is scheduled and started, so it stays set when the start raises.
\<close>

definition start_watching_file :: "sensor \<Rightarrow> state \<Rightarrow> result" where
  "start_watching_file sn s =
    (case observer s of
       Some w \<Rightarrow> (None, s)
     | None \<Rightarrow>
         (let s1 = s\<lparr>observer := Some \<lparr>sensor_instance = sn,
                         file_paths = [monthly_energy_file_path (sensor_device sn),
                                       daily_energy_file_path (sensor_device sn)]\<rparr>\<rparr>
          in if can_watch s then (None, log_msg Info ''Started watching files: %s'' s1)
             else (Some OSError, s1)))"

text \<open>\<open>RefossSensor.__init__\<close>, from the first \<open>ensure_file_exists\<close> on.\<close>

definition init_sensor :: "sensor \<Rightarrow> state \<Rightarrow> result" where
  "init_sensor sn s =
    and_then (ensure_file_exists sn (monthly_energy_file_path (sensor_device sn)) False s)
      (\<lambda>s1. and_then (ensure_file_exists sn (daily_energy_file_path (sensor_device sn)) True s1)
      (\<lambda>s2. and_then (load_energy_data sn s2)
      (\<lambda>s3. and_then (load_daily_energy_data sn s3)
      (\<lambda>s4. start_watching_file sn s4))))"

definition endswith :: "string \<Rightarrow> string \<Rightarrow> bool" where
  "endswith str suffix =
     (length suffix \<le> length str \<and> drop (length str - length suffix) str = suffix)"

text \<open>\<open>EnergyFileWatcher.on_modified\<close> for an event with the given \<open>src_path\<close>.\<close>

definition on_modified :: "watcher \<Rightarrow> string \<Rightarrow> state \<Rightarrow> result" where
  "on_modified w src_path s =
    (if src_path \<in> set (file_paths w) then
       (let s1 = log_msg Info ''Detected change in %s, reloading energy data.'' s in
        if endswith src_path ''_daily_energy.json''
          then load_daily_energy_data (sensor_instance w) s1
        else if endswith src_path ''_monthly_energy.json''
          then load_energy_data (sensor_instance w) s1
        else (None, s1))
     else (None, s))"

text \<open>
  What can happen to the shared state: a job fires, a sensor is created, the observer
  reports a modified path, a coordinator's device takes new readings, or somebody else
  changes a file.
\<close>

datatype event =
    FireUserReset | FireDeviceReset | FireDailyReset int
  | CreateSensor sensor | FileModified string
  | DevicesUpdated "device list" | ExternalEdit string disk_file

fun step :: "event \<Rightarrow> state \<Rightarrow> result" where
  "step FireUserReset s = save_user_reset s"
| "step FireDeviceReset s = save_device_reset s"
| "step (FireDailyReset user_reset_day) s = save_daily_energy user_reset_day s"
| "step (CreateSensor sn) s = init_sensor sn s"
| "step (FileModified src_path) s =
     (case observer s of None \<Rightarrow> (None, s) | Some w \<Rightarrow> on_modified w src_path s)"
| "step (DevicesUpdated ds) s = (None, s\<lparr>coordinators := ds\<rparr>)"
| "step (ExternalEdit file_path f) s = (None, s\<lparr>files := (files s)(file_path := f)\<rparr>)"

section \<open>The calendar scheduler\<close>

text \<open>
  \<open>datetime.datetime\<close>: a naive timestamp.  Its constructor and \<open>replace\<close> raise
  \<open>ValueError\<close> unless the fields are in range, the day within its month.
\<close>

record datetime =
  year :: int
  month :: int
  day :: int
  hour :: int
  minute :: int
  second :: int
  microsecond :: int

definition is_leap :: "int \<Rightarrow> bool" where
  "is_leap y = (y mod 4 = 0 \<and> (y mod 100 \<noteq> 0 \<or> y mod 400 = 0))"

definition days_in_month :: "int \<Rightarrow> int \<Rightarrow> int" where
  "days_in_month y m =
     (if m = 2 then (if is_leap y then 29 else 28)
      else if m = 4 \<or> m = 6 \<or> m = 9 \<or> m = 11 then 30 else 31)"

definition valid_datetime :: "datetime \<Rightarrow> bool" where
  "valid_datetime t =
     (1 \<le> year t \<and> year t \<le> 9999 \<and> 1 \<le> month t \<and> month t \<le> 12 \<and>
      1 \<le> day t \<and> day t \<le> days_in_month (year t) (month t) \<and>
      0 \<le> hour t \<and> hour t < 24 \<and> 0 \<le> minute t \<and> minute t < 60 \<and>
      0 \<le> second t \<and> second t < 60 \<and> 0 \<le> microsecond t \<and> microsecond t < 1000000)"

definition checked :: "datetime \<Rightarrow> error + datetime" where
  "checked t = (if valid_datetime t then Inr t else Inl ValueError)"

text \<open>\<open>a < b\<close> on timestamps: the fields compared in order.\<close>

definition dt_less :: "datetime \<Rightarrow> datetime \<Rightarrow> bool" where
  "dt_less a b =
     (year a < year b \<or> (year a = year b \<and>
     (month a < month b \<or> (month a = month b \<and>
     (day a < day b \<or> (day a = day b \<and>
     (hour a < hour b \<or> (hour a = hour b \<and>
     (minute a < minute b \<or> (minute a = minute b \<and>
     (second a < second b \<or> (second a = second b \<and>
      microsecond a < microsecond b))))))))))))"

definition dt_le :: "datetime \<Rightarrow> datetime \<Rightarrow> bool" where
  "dt_le a b = (\<not> dt_less b a)"

text \<open>\<open>t - datetime.timedelta(seconds=1)\<close>; before year 1 it raises \<open>OverflowError\<close>.\<close>

definition minus_one_second :: "datetime \<Rightarrow> error + datetime" where
  "minus_one_second t =
    (if 0 < second t then Inr (t\<lparr>second := second t - 1\<rparr>)
     else if 0 < minute t then Inr (t\<lparr>minute := minute t - 1, second := 59\<rparr>)
     else if 0 < hour t then Inr (t\<lparr>hour := hour t - 1, minute := 59, second := 59\<rparr>)
     else if 1 < day t then
       Inr (t\<lparr>day := day t - 1, hour := 23, minute := 59, second := 59\<rparr>)
     else if 1 < month t then
       Inr (t\<lparr>month := month t - 1, day := days_in_month (year t) (month t - 1),
              hour := 23, minute := 59, second := 59\<rparr>)
     else if 1 < year t then
       Inr (t\<lparr>year := year t - 1, month := 12, day := 31,
              hour := 23, minute := 59, second := 59\<rparr>)
     else Inl OverflowError)"

text \<open>
  \<open>schedule_user_reset\<close> and \<open>schedule_device_reset\<close>, as functions of
  \<open>datetime.datetime.now()\<close>: the result is the \<open>target_time\<close> handed to
  \<open>async_track_point_in_time\<close>.  \<open>replace\<close> keeps the fields it is not given, the
  microsecond among them.
\<close>

definition schedule_user_reset :: "int \<Rightarrow> datetime \<Rightarrow> error + datetime" where
  "schedule_user_reset user_reset_day now =
    (case checked (now\<lparr>day := user_reset_day, hour := 0, minute := 0, second := 0\<rparr>) of
       Inl e \<Rightarrow> Inl e
     | Inr target_time \<Rightarrow>
         if dt_less target_time now then
           checked (target_time\<lparr>month := (month now mod 12) + 1,
                      year := year now + (if month now = 12 then 1 else 0)\<rparr>)
         else Inr target_time)"

definition schedule_device_reset :: "int \<Rightarrow> datetime \<Rightarrow> error + datetime" where
  "schedule_device_reset device_reset_day now =
    (case checked (now\<lparr>day := device_reset_day, hour := 0, minute := 0, second := 0\<rparr>) of
       Inl e \<Rightarrow> Inl e
     | Inr target_time \<Rightarrow>
         (case (if dt_less target_time now then
                  checked (target_time\<lparr>month := (month now mod 12) + 1,
                             year := year now + (if month now = 12 then 1 else 0)\<rparr>)
                else Inr target_time) of
            Inl e \<Rightarrow> Inl e
          | Inr target_time' \<Rightarrow> minus_one_second target_time'))"
section \<open>Notions used in the statements, and example inputs\<close>

text \<open>The device-reported value, an absent reading counted as 0.\<close>

definition reading :: "device \<Rightarrow> int \<Rightarrow> string \<Rightarrow> real" where
  "reading d c sk = (case get_value d c sk of None \<Rightarrow> 0 | Some x \<Rightarrow> x)"

text \<open>A cache that is a mapping from keys to numbers.\<close>

definition offset_mapping :: "json \<Rightarrow> bool" where
  "offset_mapping j =
     (case j of JObj kvs \<Rightarrow> list_all (\<lambda>(k, v). as_number v \<noteq> None) kvs | _ \<Rightarrow> False)"

definition ex_device :: device where
  "ex_device = \<lparr>dev_name = ''em06'', device_type = ''em06'', is_electricity = True,
     channels = [1, 2],
     get_value = (\<lambda>c sk. if c = 1 \<and> sk = ''mConsume'' then Some 5000
                          else if c = 1 \<and> sk = ''power'' then Some 1500 else None)\<rparr>"

definition ex_state :: state where
  "ex_state = \<lparr>coordinators = [ex_device], files = (\<lambda>p. Missing), open_w = (\<lambda>p. WriteOk),
     cached_monthly_energy_data = JObj [(''1'', JNum (- 200))],
     cached_daily_energy_data = JObj [(''1'', JNum 300)],
     observer = None, logged = [], can_watch = True\<rparr>"

text \<open>The sensor of \<open>ex_device\<close> for a channel and the \<open>i\<close>-th description of \<open>SENSORS_EM\<close>.\<close>

definition ex_sensor :: "int \<Rightarrow> nat \<Rightarrow> sensor" where
  "ex_sensor c i =
     \<lparr>sensor_device = ex_device, channel_id = c, entity_description = SENSORS_EM ! i\<rparr>"

text \<open>
  The number a cached mapping holds for a channel, a missing key counted as 0.
\<close>

definition offset_at :: "json \<Rightarrow> int \<Rightarrow> real" where
  "offset_at cache c =
     (case cache of
        JObj kvs \<Rightarrow>
          (case map_of kvs (str_int c) of
             None \<Rightarrow> 0
           | Some v \<Rightarrow> (case as_number v of None \<Rightarrow> 0 | Some r \<Rightarrow> r))
      | _ \<Rightarrow> 0)"

text \<open>
  What the device-reset job computes for the channels of a device: the reading plus the
  cached monthly offset.
\<close>

definition adjusted_data :: "json \<Rightarrow> device \<Rightarrow> int list \<Rightarrow> (int \<times> real) list \<Rightarrow> (int \<times> real) list" where
  "adjusted_data cache d cs acc =
     fold (\<lambda>c e. AList.update c (reading d c ''mConsume'' + offset_at cache c) e) cs acc"

text \<open>The example device after its own counter went back to 0, and its sensors.\<close>

definition ex_device0 :: device where
  "ex_device0 = ex_device\<lparr>get_value := (\<lambda>c sk. if sk = ''mConsume'' then Some 0 else None)\<rparr>"

definition ex_sensor0 :: "int \<Rightarrow> nat \<Rightarrow> sensor" where
  "ex_sensor0 c i =
     \<lparr>sensor_device = ex_device0, channel_id = c, entity_description = SENSORS_EM ! i\<rparr>"

text \<open>
  The events that run \<open>load_energy_data\<close>: creating a sensor, and the observer reporting
  one of the watched paths, when that path is a monthly file.
\<close>

definition performs_monthly_load :: "event \<Rightarrow> state \<Rightarrow> bool" where
  "performs_monthly_load e s =
     (case e of
        CreateSensor sn \<Rightarrow> True
      | FileModified src_path \<Rightarrow>
          (case observer s of
             None \<Rightarrow> False
           | Some w \<Rightarrow> src_path \<in> set (file_paths w)
                       \<and> \<not> endswith src_path ''_daily_energy.json''
                       \<and> endswith src_path ''_monthly_energy.json'')
      | _ \<Rightarrow> False)"

text \<open>The example state once the month sensor of channel 1 has started the observer.\<close>

definition ex_watched :: state where
  "ex_watched = ex_state\<lparr>observer :=
     Some \<lparr>sensor_instance = ex_sensor 1 4,
           file_paths = [''/config/em06_monthly_energy.json'',
                         ''/config/em06_daily_energy.json'']\<rparr>\<rparr>"

text \<open>
  The example state with a monthly file on disk, and a file system that refuses every
  \<open>open(path, "w")\<close>, or that fails every write after opening.
\<close>

definition ex_open_fails :: state where
  "ex_open_fails = ex_state\<lparr>
     files := (\<lambda>p. if p = ''/config/em06_monthly_energy.json''
                    then Holds (JObj [(''1'', JNum (- 200))]) else Missing),
     open_w := (\<lambda>p. OpenFails)\<rparr>"

definition ex_write_fails :: state where
  "ex_write_fails = ex_open_fails\<lparr>open_w := (\<lambda>p. WriteFails)\<rparr>"

text \<open>
  The example state with both files of the device on disk as bytes that are not UTF-8
  (say, a file saved as UTF-16 by an editor).
\<close>

definition ex_undecodable :: state where
  "ex_undecodable = ex_state\<lparr>files := (\<lambda>p. if p = ''/config/em06_monthly_energy.json''
                                             \<or> p = ''/config/em06_daily_energy.json''
                                          then Undecodable else Missing)\<rparr>"

text \<open>
  Notions for the scheduler: the day exists in a month; the target (the day at 00:00:00)
  lies before \<open>now\<close>; the month and year after \<open>now\<close>'s; a timestamp at 00:00:00.
\<close>

definition day_exists :: "int \<Rightarrow> int \<Rightarrow> int \<Rightarrow> bool" where
  "day_exists y m d = (1 \<le> d \<and> d \<le> days_in_month y m)"

definition already_passed :: "int \<Rightarrow> datetime \<Rightarrow> bool" where
  "already_passed d now =
     (d < day now \<or> (d = day now \<and> (0 < hour now \<or> 0 < minute now \<or> 0 < second now)))"

definition following_month :: "datetime \<Rightarrow> int" where
  "following_month now = (if month now = 12 then 1 else month now + 1)"

definition following_year :: "datetime \<Rightarrow> int" where
  "following_year now = (if month now = 12 then year now + 1 else year now)"

definition at_midnight :: "datetime \<Rightarrow> bool" where
  "at_midnight t = (hour t = 0 \<and> minute t = 0 \<and> second t = 0)"

definition ex_now :: "int \<Rightarrow> int \<Rightarrow> int \<Rightarrow> int \<Rightarrow> int \<Rightarrow> int \<Rightarrow> int \<Rightarrow> datetime" where
  "ex_now y m d h mi sec us =
     \<lparr>year = y, month = m, day = d, hour = h, minute = mi, second = sec, microsecond = us\<rparr>"

section \<open>Basic facts\<close>

lemma value_or_0_reading: "value_or_0 d c sk = reading d c sk"
  by (simp add: value_or_0_def reading_def split: option.splits)

lemma map_of_numeric:
  "list_all (\<lambda>(k, v). as_number v \<noteq> None) kvs \<Longrightarrow> map_of kvs k = Some v
     \<Longrightarrow> \<exists>r. as_number v = Some r"
  by (induction kvs) (auto split: if_splits)

lemma lookup_numeric:
  assumes "offset_mapping (JObj kvs)"
  shows "\<exists>r. as_number (case map_of kvs k of None \<Rightarrow> JNum 0 | Some v \<Rightarrow> v) = Some r"
proof (cases "map_of kvs k")
  case None
  then show ?thesis by simp
next
  case (Some v)
  with assms map_of_numeric[of kvs k v] show ?thesis by (simp add: offset_mapping_def)
qed

lemma str_int_1: "str_int 1 = ''1''"
  by (simp add: str_int_def digits.simps digit_char_def)

lemma str_int_2: "str_int 2 = ''2''"
  by (simp add: str_int_def digits.simps digit_char_def)

lemma digit_char_inj: "a < 10 \<Longrightarrow> b < 10 \<Longrightarrow> digit_char a = digit_char b \<Longrightarrow> a = b"
  unfolding digit_char_def
  by (subst (asm) nth_eq_iff_index_eq) simp_all

lemma digit_char_not_minus: "a < 10 \<Longrightarrow> digit_char a \<noteq> CHR ''-''"
proof -
  assume "a < 10"
  then have "digit_char a \<in> set ''0123456789''" unfolding digit_char_def by (intro nth_mem) simp
  then show ?thesis by auto
qed

lemma digits_nonempty: "digits n \<noteq> []"
  by (subst digits.simps) simp

lemma digits_inj: "digits a = digits b \<Longrightarrow> a = b"
proof (induction a arbitrary: b rule: digits.induct)
  case (1 n)
  show ?case
  proof (cases "n < 10")
    case True
    then have dn: "digits n = [digit_char n]" by (subst digits.simps) simp
    show ?thesis
    proof (cases "b < 10")
      case bT: True
      then have "digits b = [digit_char b]" by (subst digits.simps) simp
      with dn "1.prems" True bT show ?thesis by (auto dest: digit_char_inj)
    next
      case bF: False
      then have "digits b = digits (b div 10) @ [digit_char (b mod 10)]" by (subst digits.simps) simp
      with dn "1.prems" digits_nonempty[of "b div 10"] show ?thesis by (cases "digits (b div 10)") auto
    qed
  next
    case False
    then have dn: "digits n = digits (n div 10) @ [digit_char (n mod 10)]" by (subst digits.simps) simp
    show ?thesis
    proof (cases "b < 10")
      case bT: True
      then have "digits b = [digit_char b]" by (subst digits.simps) simp
      with dn "1.prems" digits_nonempty[of "n div 10"] show ?thesis by (cases "digits (n div 10)") auto
    next
      case bF: False
      then have db: "digits b = digits (b div 10) @ [digit_char (b mod 10)]" by (subst digits.simps) simp
      from dn db "1.prems" have e1: "digits (n div 10) = digits (b div 10)"
        and e2: "digit_char (n mod 10) = digit_char (b mod 10)" by auto
      from "1.IH"[OF False e1] have "n div 10 = b div 10" .
      moreover from e2 have "n mod 10 = b mod 10" by (auto dest!: digit_char_inj[rotated 2])
      ultimately show ?thesis by (metis div_mult_mod_eq)
    qed
  qed
qed

lemma digits_hd_not_minus: "hd (digits n) \<noteq> CHR ''-''"
proof (induction n rule: digits.induct)
  case (1 n)
  show ?case
  proof (cases "n < 10")
    case True
    then show ?thesis by (subst digits.simps) (simp add: digit_char_not_minus)
  next
    case False
    with 1 digits_nonempty[of "n div 10"] show ?thesis by (subst digits.simps) (simp add: hd_append)
  qed
qed

lemma str_int_inj: "str_int a = str_int b \<Longrightarrow> a = b"
proof -
  assume eq: "str_int a = str_int b"
  have neg_pos: "CHR ''-'' # digits m \<noteq> digits n" for m n
  proof
    assume "CHR ''-'' # digits m = digits n"
    then have "hd (digits n) = CHR ''-''" by (metis list.sel(1))
    with digits_hd_not_minus show False by blast
  qed
  show ?thesis
  proof (cases "a < 0")
    case aneg: True
    show ?thesis
    proof (cases "b < 0")
      case True
      with aneg eq have "digits (nat (- a)) = digits (nat (- b))" by (simp add: str_int_def)
      then have "nat (- a) = nat (- b)" by (rule digits_inj)
      with aneg True show ?thesis by simp
    next
      case False
      with aneg eq neg_pos show ?thesis by (simp add: str_int_def)
    qed
  next
    case apos: False
    show ?thesis
    proof (cases "b < 0")
      case True
      with apos eq neg_pos[of "nat (- b)" "nat a"] show ?thesis by (simp add: str_int_def)
    next
      case False
      with apos eq have "digits (nat a) = digits (nat b)" by (simp add: str_int_def)
      then have "nat a = nat b" by (rule digits_inj)
      with apos False show ?thesis by simp
    qed
  qed
qed


lemma map_of_fold_update_id:
  "map_of (fold (\<lambda>c e. AList.update c (f c) e) cs acc) k =
     (if k \<in> set cs then Some (f k) else map_of acc k)"
  by (induction cs arbitrary: acc) (auto simp: update_conv')

lemma map_of_fold_update_str:
  "map_of (fold (\<lambda>c e. AList.update (str_int c) (f c) e) cs acc) (str_int k) =
     (if k \<in> set cs then Some (f k) else map_of acc (str_int k))"
  by (induction cs arbitrary: acc) (auto simp: update_conv' dest: str_int_inj)

lemma keys_fold_update:
  "fst ` set (fold (\<lambda>c e. AList.update (g c) (f c) e) cs acc) = g ` set cs \<union> fst ` set acc"
  by (induction cs arbitrary: acc) (auto simp: dom_update)

lemma map_of_json_keys:
  "map_of (map (\<lambda>(k, v). (str_int k, JNum v)) d) (str_int c) = map_option JNum (map_of d c)"
  by (induction d) (auto dest: str_int_inj)

lemma user_energy_data_lookup:
  "map_of (user_energy_data d) c =
     (if c \<in> set (channels d) then Some (- reading d c ''mConsume'') else None)"
  by (simp add: user_energy_data_def map_of_fold_update_id value_or_0_reading)

lemma try_dump_frame [simp]:
  "open_w (try_dump p doc a b s) = open_w s"
  "coordinators (try_dump p doc a b s) = coordinators s"
  "cached_monthly_energy_data (try_dump p doc a b s) = cached_monthly_energy_data s"
  "cached_daily_energy_data (try_dump p doc a b s) = cached_daily_energy_data s"
  "observer (try_dump p doc a b s) = observer s"
  by (simp_all add: try_dump_def dump_file_def log_msg_def split: write_outcome.splits)

lemma try_dump_other: "q \<noteq> p \<Longrightarrow> files (try_dump p doc a b s) q = files s q"
  by (simp add: try_dump_def dump_file_def log_msg_def split: write_outcome.splits)

lemma try_dump_ok: "open_w s p = WriteOk \<Longrightarrow> files (try_dump p doc a b s) p = Holds doc"
  by (simp add: try_dump_def dump_file_def log_msg_def)

lemma monthly_path_eq [simp]:
  "monthly_energy_file_path d = monthly_energy_file_path d' \<longleftrightarrow> dev_name d = dev_name d'"
  by (simp add: monthly_energy_file_path_def)

lemma daily_path_eq [simp]:
  "daily_energy_file_path d = daily_energy_file_path d' \<longleftrightarrow> dev_name d = dev_name d'"
  by (simp add: daily_energy_file_path_def)

text \<open>A loop that dumps one document per electricity device.\<close>

lemma fold_dump_frame:
  fixes path :: "device \<Rightarrow> string" and doc :: "device \<Rightarrow> json" and a b :: string
  defines "body \<equiv> (\<lambda>d s. if \<not> is_electricity d then s else try_dump (path d) (doc d) a b s)"
  shows "open_w (fold body ds s) = open_w s
       \<and> coordinators (fold body ds s) = coordinators s
       \<and> cached_monthly_energy_data (fold body ds s) = cached_monthly_energy_data s
       \<and> cached_daily_energy_data (fold body ds s) = cached_daily_energy_data s
       \<and> observer (fold body ds s) = observer s"
  by (induction ds arbitrary: s) (simp_all add: body_def)

lemma fold_dump_other:
  fixes path :: "device \<Rightarrow> string" and doc :: "device \<Rightarrow> json" and a b :: string
  defines "body \<equiv> (\<lambda>d s. if \<not> is_electricity d then s else try_dump (path d) (doc d) a b s)"
  assumes "\<forall>d\<in>set ds. is_electricity d \<longrightarrow> path d \<noteq> q"
  shows "files (fold body ds s) q = files s q"
  using assms(2) by (induction ds arbitrary: s) (auto simp: body_def try_dump_other)

lemma fold_dump_last:
  fixes path :: "device \<Rightarrow> string" and doc :: "device \<Rightarrow> json" and a b :: string
  defines "body \<equiv> (\<lambda>d s. if \<not> is_electricity d then s else try_dump (path d) (doc d) a b s)"
  assumes "d \<in> set ds" and "is_electricity d" and "open_w s (path d) = WriteOk"
    and "\<forall>d'\<in>set ds. is_electricity d' \<and> path d' = path d \<longrightarrow> doc d' = doc d"
  shows "files (fold body ds s) (path d) = Holds (doc d)"
  using assms(2,5)
proof (induction ds rule: rev_induct)
  case Nil
  then show ?case by simp
next
  case (snoc x xs)
  have ow: "open_w (fold body xs s) (path d) = WriteOk"
    using fold_dump_frame[of path doc a b xs s] assms(4) by (simp add: body_def)
  have unfold: "fold body (xs @ [x]) s = body x (fold body xs s)" by simp
  show ?case
  proof (cases "is_electricity x \<and> path x = path d")
    case True
    with snoc.prems have "doc x = doc d" by simp
    with True have "body x (fold body xs s) = try_dump (path d) (doc d) a b (fold body xs s)"
      by (simp add: body_def)
    with ow show ?thesis unfolding unfold by (simp add: try_dump_ok)
  next
    case False
    with snoc.prems assms(3) have "d \<in> set xs" by auto
    with snoc have IH: "files (fold body xs s) (path d) = Holds (doc d)" by simp
    from False have "files (body x (fold body xs s)) (path d) = files (fold body xs s) (path d)"
      by (auto simp: body_def try_dump_other)
    with IH show ?thesis unfolding unfold by simp
  qed
qed

lemma native_value_this_month:
  assumes "cached_monthly_energy_data s = JObj m" and "cached_daily_energy_data s = JObj dl"
    and "entity_description sn = SENSORS_EM ! 4"
    and "map_of m (str_int (channel_id sn)) = Some (JNum mo)"
  shows "native_value sn s = Inr (reading (sensor_device sn) (channel_id sn) ''mConsume'' + mo)"
  using assms
  by (simp add: native_value_def SENSORS_EM_def value_or_0_reading py_add_def)

lemma save_user_reset_device_eq:
  "save_user_reset_device =
     (\<lambda>d s. if \<not> is_electricity d then s
            else try_dump (monthly_energy_file_path d) (json_of_energy_data (user_energy_data d))
                   ''Saved monthly energy data (inverted) for device %s''
                   ''Failed to save monthly energy data: %s'' s)"
  by (intro ext) (simp add: save_user_reset_device_def)

lemma save_user_reset_file:
  assumes "d \<in> set (coordinators s)" and "is_electricity d"
    and "\<forall>d'\<in>set (coordinators s). is_electricity d' \<and> dev_name d' = dev_name d \<longrightarrow> d' = d"
    and "open_w s (monthly_energy_file_path d) = WriteOk"
  shows "files (snd (save_user_reset s)) (monthly_energy_file_path d) =
           Holds (json_of_energy_data (user_energy_data d))"
proof -
  have "\<forall>d'\<in>set (coordinators s). is_electricity d' \<and>
          monthly_energy_file_path d' = monthly_energy_file_path d \<longrightarrow>
          json_of_energy_data (user_energy_data d') = json_of_energy_data (user_energy_data d)"
    using assms(3) by auto
  from fold_dump_last [of d "coordinators s" s monthly_energy_file_path
        "\<lambda>d. json_of_energy_data (user_energy_data d)", OF assms(1,2,4) this]
  show ?thesis by (simp add: save_user_reset_def save_user_reset_device_eq)
qed

lemma load_energy_data_holds:
  "files s (monthly_energy_file_path (sensor_device sn)) = Holds j \<Longrightarrow>
   fst (load_energy_data sn s) = None \<and>
   cached_monthly_energy_data (snd (load_energy_data sn s)) = j \<and>
   cached_daily_energy_data (snd (load_energy_data sn s)) = cached_daily_energy_data s"
  by (simp add: load_energy_data_def log_msg_def)

section \<open>The derivation read\<close>

text \<open>
  Claim C1.  With both caches dictionaries, \<open>native_value\<close> (a function of the state that
  changes nothing) returns: for a description that is neither \<open>this_day_energy\<close> nor
  \<open>this_month_energy\<close> (power, voltage, current, factor) the description's \<open>fn\<close> of the
  device reading, no offset applied; for \<open>this_month_energy\<close> the reading plus the monthly
  offset of the channel; for \<open>this_day_energy\<close> the reading plus the monthly offset minus
  the daily offset.  An absent reading counts as 0 in each case.
\<close>

theorem native_value_derivation:
  assumes "cached_monthly_energy_data s = JObj m" and "cached_daily_energy_data s = JObj dl"
  shows "(translation_key (entity_description sn) \<noteq> ''this_day_energy'' \<and>
          translation_key (entity_description sn) \<noteq> ''this_month_energy'' \<longrightarrow>
            native_value sn s = Inr (fn (entity_description sn)
              (reading (sensor_device sn) (channel_id sn) (subkey (entity_description sn)))))
       \<and> (translation_key (entity_description sn) = ''this_month_energy'' \<and>
           map_of m (str_int (channel_id sn)) = Some (JNum mo) \<longrightarrow>
            native_value sn s = Inr (fn (entity_description sn)
              (reading (sensor_device sn) (channel_id sn) (subkey (entity_description sn))
               + mo)))
       \<and> (translation_key (entity_description sn) = ''this_day_energy'' \<and>
           map_of m (str_int (channel_id sn)) = Some (JNum mo) \<and>
           map_of dl (str_int (channel_id sn)) = Some (JNum dy) \<longrightarrow>
            native_value sn s = Inr (fn (entity_description sn)
              (reading (sensor_device sn) (channel_id sn) (subkey (entity_description sn))
               + mo - dy)))"
  using assms
  by (simp add: native_value_def value_or_0_reading py_add_def py_sub_def)

text \<open>
  At the example device: the power sensor of channel 1 scales 1500 to 1.5; with offsets
  -200 and 300 the month reads 4800 and the day 4500; channel 2 has no reading, so its
  day sensor reads 0 + 7 - 3.
\<close>

theorem native_value_derivation_witness:
  "native_value (ex_sensor 1 0) ex_state = Inr (3 / 2)
   \<and> native_value (ex_sensor 1 4) ex_state = Inr 4800
   \<and> native_value (ex_sensor 1 5) ex_state = Inr 4500
   \<and> native_value (ex_sensor 2 5)
        (ex_state\<lparr>cached_monthly_energy_data := JObj [(''2'', JNum 7)],
                  cached_daily_energy_data := JObj [(''2'', JNum 3)]\<rparr>) = Inr 4"
proof -
  have m: "cached_monthly_energy_data ex_state = JObj [(''1'', JNum (- 200))]"
    and d: "cached_daily_energy_data ex_state = JObj [(''1'', JNum 300)]"
    by (simp_all add: ex_state_def)
  have a: "native_value (ex_sensor 1 0) ex_state = Inr (3 / 2)"
    using native_value_derivation [OF m d, of "ex_sensor 1 0"]
    by (simp add: ex_sensor_def SENSORS_EM_def reading_def ex_device_def)
  have b: "native_value (ex_sensor 1 4) ex_state = Inr 4800"
    using native_value_derivation [OF m d, of "ex_sensor 1 4" "- 200"]
    by (simp add: ex_sensor_def SENSORS_EM_def reading_def ex_device_def str_int_1)
  have c: "native_value (ex_sensor 1 5) ex_state = Inr 4500"
    using native_value_derivation [OF m d, of "ex_sensor 1 5" "- 200" 300]
    by (simp add: ex_sensor_def SENSORS_EM_def reading_def ex_device_def str_int_1)
  have e: "native_value (ex_sensor 2 5)
        (ex_state\<lparr>cached_monthly_energy_data := JObj [(''2'', JNum 7)],
                  cached_daily_energy_data := JObj [(''2'', JNum 3)]\<rparr>) = Inr 4"
    using native_value_derivation
      [of "ex_state\<lparr>cached_monthly_energy_data := JObj [(''2'', JNum 7)],
                     cached_daily_energy_data := JObj [(''2'', JNum 3)]\<rparr>"
          "[(''2'', JNum 7)]" "[(''2'', JNum 3)]" "ex_sensor 2 5" 7 3]
    by (simp add: ex_sensor_def SENSORS_EM_def reading_def ex_device_def str_int_2)
  from a b c e show ?thesis by simp
qed

section \<open>What the jobs and the watcher touch\<close>

lemma save_user_reset_frame:
  "fst (save_user_reset s) = None
   \<and> open_w (snd (save_user_reset s)) = open_w s
   \<and> coordinators (snd (save_user_reset s)) = coordinators s
   \<and> cached_monthly_energy_data (snd (save_user_reset s)) = cached_monthly_energy_data s
   \<and> cached_daily_energy_data (snd (save_user_reset s)) = cached_daily_energy_data s
   \<and> observer (snd (save_user_reset s)) = observer s"
  using fold_dump_frame [of monthly_energy_file_path
        "\<lambda>d. json_of_energy_data (user_energy_data d)" _ _ "coordinators s" s]
  by (simp add: save_user_reset_def save_user_reset_device_eq)

lemma save_user_reset_other:
  assumes "\<forall>d\<in>set (coordinators s). is_electricity d \<longrightarrow> monthly_energy_file_path d \<noteq> p"
  shows "files (snd (save_user_reset s)) p = files s p"
  using fold_dump_other [of "coordinators s" monthly_energy_file_path p
        "\<lambda>d. json_of_energy_data (user_energy_data d)" _ _ s] assms
  by (simp add: save_user_reset_def save_user_reset_device_eq)

lemma save_device_reset_from_frame:
  "open_w (snd (save_device_reset_from ds s)) = open_w s
   \<and> coordinators (snd (save_device_reset_from ds s)) = coordinators s
   \<and> cached_monthly_energy_data (snd (save_device_reset_from ds s)) = cached_monthly_energy_data s
   \<and> cached_daily_energy_data (snd (save_device_reset_from ds s)) = cached_daily_energy_data s
   \<and> observer (snd (save_device_reset_from ds s)) = observer s"
  by (induction ds arbitrary: s) (simp_all split: sum.splits)

lemma save_device_reset_from_other:
  assumes "\<forall>d\<in>set ds. is_electricity d \<longrightarrow> monthly_energy_file_path d \<noteq> p"
  shows "files (snd (save_device_reset_from ds s)) p = files s p"
  using assms
  by (induction ds arbitrary: s) (auto simp: try_dump_other split: sum.splits)

lemma save_daily_energy_from_frame:
  "open_w (snd (save_daily_energy_from u ds s)) = open_w s
   \<and> coordinators (snd (save_daily_energy_from u ds s)) = coordinators s
   \<and> cached_monthly_energy_data (snd (save_daily_energy_from u ds s)) = cached_monthly_energy_data s
   \<and> cached_daily_energy_data (snd (save_daily_energy_from u ds s)) = cached_daily_energy_data s
   \<and> observer (snd (save_daily_energy_from u ds s)) = observer s"
  by (induction ds arbitrary: s) (simp_all split: sum.splits)

lemma load_daily_monthly_cache [simp]:
  "cached_monthly_energy_data (snd (load_daily_energy_data sn s)) = cached_monthly_energy_data s"
  by (simp add: load_daily_energy_data_def log_msg_def split: disk_file.splits)

lemma log_msg_frame [simp]:
  "cached_monthly_energy_data (log_msg l m s) = cached_monthly_energy_data s"
  "cached_daily_energy_data (log_msg l m s) = cached_daily_energy_data s"
  "observer (log_msg l m s) = observer s"
  "files (log_msg l m s) = files s"
  "open_w (log_msg l m s) = open_w s"
  "coordinators (log_msg l m s) = coordinators s"
  by (simp_all add: log_msg_def)

lemma step_monthly_cache:
  assumes "\<not> performs_monthly_load e s"
  shows "cached_monthly_energy_data (snd (step e s)) = cached_monthly_energy_data s"
proof (cases e)
  case FireUserReset
  then show ?thesis using save_user_reset_frame[of s] by simp
next
  case FireDeviceReset
  then show ?thesis using save_device_reset_from_frame[of "coordinators s" s]
    by (simp add: save_device_reset_def)
next
  case (FireDailyReset u)
  then show ?thesis using save_daily_energy_from_frame[of u "coordinators s" s]
    by (simp add: save_daily_energy_def)
next
  case (CreateSensor sn)
  with assms show ?thesis by (simp add: performs_monthly_load_def)
next
  case (FileModified p)
  with assms show ?thesis
    by (auto simp: performs_monthly_load_def on_modified_def Let_def split: option.splits)
next
  case (DevicesUpdated ds)
  then show ?thesis by simp
next
  case (ExternalEdit p f)
  then show ?thesis by simp
qed

lemma native_value_cong:
  assumes "cached_monthly_energy_data s = cached_monthly_energy_data s'"
    and "cached_daily_energy_data s = cached_daily_energy_data s'"
  shows "native_value sn s = native_value sn s'"
  unfolding native_value_def assms by (rule refl)

lemma endswith_monthly_path:
  "endswith (monthly_energy_file_path d) ''_monthly_energy.json''"
  by (simp add: endswith_def monthly_energy_file_path_def)

lemma not_endswith_daily_path:
  "\<not> endswith (monthly_energy_file_path d) ''_daily_energy.json''"
proof -
  have "monthly_energy_file_path d = (''/config/'' @ dev_name d @ ''_m'') @ ''onthly_energy.json''"
    by (simp add: monthly_energy_file_path_def)
  then have "drop (length (monthly_energy_file_path d) - length ''_daily_energy.json'')
               (monthly_energy_file_path d) = ''onthly_energy.json''"
    by simp
  then show ?thesis by (simp add: endswith_def)
qed

lemma on_modified_monthly:
  assumes "monthly_energy_file_path d \<in> set (file_paths w)"
  shows "on_modified w (monthly_energy_file_path d) s =
           load_energy_data (sensor_instance w)
             (log_msg Info ''Detected change in %s, reloading energy data.'' s)"
  using assms by (simp add: on_modified_def endswith_monthly_path not_endswith_daily_path)

lemma load_energy_data_log_msg:
  "files s (monthly_energy_file_path (sensor_device sn)) = Holds j \<Longrightarrow>
   fst (load_energy_data sn (log_msg l msg s)) = None \<and>
   cached_monthly_energy_data (snd (load_energy_data sn (log_msg l msg s))) = j \<and>
   cached_daily_energy_data (snd (load_energy_data sn (log_msg l msg s))) =
     cached_daily_energy_data s"
  using load_energy_data_holds[of "log_msg l msg s" sn j] by simp

section \<open>The user's monthly reset\<close>

text \<open>
  Claim C2, as the code has it.  When \<open>save_user_reset\<close> fires, then for every
  electricity device \<open>d\<close> among the coordinators (owning its file alone, the write going
  through) the job returns normally and the monthly file of \<open>d\<close> holds, for every channel
  of \<open>d\<close>, the negated device reading under the key \<open>str(channel)\<close>.  The job leaves the
  cache alone, so right after it every sensor reads what it read before.  The
  \<open>this_month_energy\<close> sensor of a channel of \<open>d\<close> reads 0, for the device value the job
  read, once the file has been loaded: by \<open>load_energy_data\<close> of a sensor of \<open>d\<close>, which is
  what the observer's report of the file runs when the observer was started by a sensor
  of \<open>d\<close> and watches the file.
\<close>

theorem user_reset_rebases_month:
  assumes "d \<in> set (coordinators s)" and "is_electricity d"
    and "\<forall>d'\<in>set (coordinators s). is_electricity d' \<and> dev_name d' = dev_name d \<longrightarrow> d' = d"
    and "open_w s (monthly_energy_file_path d) = WriteOk"
    and "c \<in> set (channels d)"
    and "cached_daily_energy_data s = JObj dl"
    and "dev_name (sensor_device sn) = dev_name d" and "channel_id sn = c"
    and "entity_description sn = SENSORS_EM ! 4"
    and "reading (sensor_device sn) c ''mConsume'' = reading d c ''mConsume''"
  shows "fst (save_user_reset s) = None
     \<and> (\<exists>kvs. files (snd (save_user_reset s)) (monthly_energy_file_path d) = Holds (JObj kvs)
           \<and> (\<forall>c'\<in>set (channels d).
                 map_of kvs (str_int c') = Some (JNum (- reading d c' ''mConsume''))))
     \<and> native_value sn (snd (save_user_reset s)) = native_value sn s
     \<and> fst (load_energy_data sn (snd (save_user_reset s))) = None
     \<and> native_value sn (snd (load_energy_data sn (snd (save_user_reset s)))) = Inr 0
     \<and> (\<forall>w. observer s = Some w
              \<and> dev_name (sensor_device (sensor_instance w)) = dev_name d
              \<and> monthly_energy_file_path d \<in> set (file_paths w) \<longrightarrow>
            fst (step (FileModified (monthly_energy_file_path d))
                   (snd (step FireUserReset s))) = None
            \<and> native_value sn (snd (step (FileModified (monthly_energy_file_path d))
                                      (snd (step FireUserReset s)))) = Inr 0)"
proof -
  let ?s1 = "snd (save_user_reset s)"
  let ?p = "monthly_energy_file_path d"
  let ?kvs = "map (\<lambda>(k, v). (str_int k, JNum v)) (user_energy_data d)"
  have fl: "files ?s1 ?p = Holds (JObj ?kvs)"
    using save_user_reset_file [OF assms(1-4)] by (simp add: json_of_energy_data_def)
  have look: "\<forall>c'\<in>set (channels d).
                 map_of ?kvs (str_int c') = Some (JNum (- reading d c' ''mConsume''))"
    by (simp add: map_of_json_keys user_energy_data_lookup)
  have lookc: "map_of ?kvs (str_int (channel_id sn)) = Some (JNum (- reading d c ''mConsume''))"
    using look assms(5,8) by simp
  have path: "monthly_energy_file_path (sensor_device sn) = ?p"
    using assms(7) by simp
  have fr: "cached_monthly_energy_data ?s1 = cached_monthly_energy_data s"
    "cached_daily_energy_data ?s1 = cached_daily_energy_data s" "observer ?s1 = observer s"
    using save_user_reset_frame[of s] by simp_all
  have daily1: "cached_daily_energy_data ?s1 = JObj dl" using fr assms(6) by simp
  have same: "native_value sn ?s1 = native_value sn s"
    using fr by (intro native_value_cong) simp_all
  from load_energy_data_holds [of ?s1 sn "JObj ?kvs"] fl path
  have ld: "fst (load_energy_data sn ?s1) = None"
    and m2: "cached_monthly_energy_data (snd (load_energy_data sn ?s1)) = JObj ?kvs"
    and d2: "cached_daily_energy_data (snd (load_energy_data sn ?s1)) = JObj dl"
    using daily1 by simp_all
  have zero: "native_value sn (snd (load_energy_data sn ?s1)) = Inr 0"
    using native_value_this_month [OF m2 d2 assms(9) lookc] assms(8,10) by simp
  have watch: "\<forall>w. observer s = Some w
              \<and> dev_name (sensor_device (sensor_instance w)) = dev_name d
              \<and> ?p \<in> set (file_paths w) \<longrightarrow>
            fst (step (FileModified ?p) (snd (step FireUserReset s))) = None
            \<and> native_value sn (snd (step (FileModified ?p) (snd (step FireUserReset s)))) = Inr 0"
  proof (intro allI impI)
    fix w
    assume h: "observer s = Some w
              \<and> dev_name (sensor_device (sensor_instance w)) = dev_name d
              \<and> ?p \<in> set (file_paths w)"
    let ?l = "log_msg Info ''Detected change in %s, reloading energy data.'' ?s1"
    have st: "step (FileModified ?p) (snd (step FireUserReset s)) =
                load_energy_data (sensor_instance w) ?l"
      using h fr(3) on_modified_monthly[of d w ?s1] by simp
    have pw: "monthly_energy_file_path (sensor_device (sensor_instance w)) = ?p"
      using h by simp
    from load_energy_data_log_msg [of ?s1 "sensor_instance w" "JObj ?kvs"] fl pw
    have l1: "fst (load_energy_data (sensor_instance w) ?l) = None"
      and l2: "cached_monthly_energy_data (snd (load_energy_data (sensor_instance w) ?l))
                 = JObj ?kvs"
      and l3: "cached_daily_energy_data (snd (load_energy_data (sensor_instance w) ?l))
                 = JObj dl"
      using daily1 by simp_all
    have "native_value sn (snd (load_energy_data (sensor_instance w) ?l)) = Inr 0"
      using native_value_this_month [OF l2 l3 assms(9) lookc] assms(8,10) by simp
    with l1 show "fst (step (FileModified ?p) (snd (step FireUserReset s))) = None
            \<and> native_value sn (snd (step (FileModified ?p) (snd (step FireUserReset s)))) = Inr 0"
      unfolding st by simp
  qed
  have r: "fst (save_user_reset s) = None" by (simp add: save_user_reset_def)
  from r fl look same ld zero watch show ?thesis by blast
qed

text \<open>
  The example device reports 5000 on channel 1 and the observer is the one started by
  its sensors: the month sensor reads 4800 before the reset, the job writes \<open>-5000\<close>, and
  after the load, run directly or by the observer's report, the sensor reads 0.
\<close>

theorem user_reset_rebases_month_witness:
  "native_value (ex_sensor 1 4) ex_watched = Inr 4800
   \<and> files (snd (save_user_reset ex_watched)) ''/config/em06_monthly_energy.json'' =
       Holds (JObj [(''1'', JNum (- 5000)), (''2'', JNum 0)])
   \<and> native_value (ex_sensor 1 4)
       (snd (load_energy_data (ex_sensor 1 4) (snd (save_user_reset ex_watched)))) = Inr 0
   \<and> native_value (ex_sensor 1 4)
       (snd (step (FileModified ''/config/em06_monthly_energy.json'')
               (snd (step FireUserReset ex_watched)))) = Inr 0"
proof -
  have a: "native_value (ex_sensor 1 4) ex_watched = Inr 4800"
    by (simp add: native_value_def ex_sensor_def ex_watched_def ex_state_def SENSORS_EM_def
          ex_device_def value_or_0_def py_add_def str_int_1)
  have b: "files (snd (save_user_reset ex_watched)) ''/config/em06_monthly_energy.json'' =
       Holds (JObj [(''1'', JNum (- 5000)), (''2'', JNum 0)])"
    by (simp add: save_user_reset_def save_user_reset_device_def ex_watched_def ex_state_def
          ex_device_def try_dump_def dump_file_def log_msg_def monthly_energy_file_path_def
          json_of_energy_data_def user_energy_data_def value_or_0_def str_int_1 str_int_2)
  have p: "monthly_energy_file_path ex_device = ''/config/em06_monthly_energy.json''"
    by (simp add: monthly_energy_file_path_def ex_device_def)
  note t = user_reset_rebases_month
    [of ex_device ex_watched 1 "[(''1'', JNum 300)]" "ex_sensor 1 4"]
  have hyp: "ex_device \<in> set (coordinators ex_watched)" "is_electricity ex_device"
    "\<forall>d'\<in>set (coordinators ex_watched).
        is_electricity d' \<and> dev_name d' = dev_name ex_device \<longrightarrow> d' = ex_device"
    "open_w ex_watched (monthly_energy_file_path ex_device) = WriteOk"
    "1 \<in> set (channels ex_device)"
    "cached_daily_energy_data ex_watched = JObj [(''1'', JNum 300)]"
    "dev_name (sensor_device (ex_sensor 1 4)) = dev_name ex_device"
    "channel_id (ex_sensor 1 4) = 1"
    "entity_description (ex_sensor 1 4) = SENSORS_EM ! 4"
    "reading (sensor_device (ex_sensor 1 4)) 1 ''mConsume'' = reading ex_device 1 ''mConsume''"
    by (simp_all add: ex_watched_def ex_state_def ex_sensor_def ex_device_def)
  note t' = t [OF hyp]
  have c: "native_value (ex_sensor 1 4)
       (snd (load_energy_data (ex_sensor 1 4) (snd (save_user_reset ex_watched)))) = Inr 0"
    using t' by blast
  have w: "observer ex_watched =
             Some \<lparr>sensor_instance = ex_sensor 1 4,
                   file_paths = [''/config/em06_monthly_energy.json'',
                                 ''/config/em06_daily_energy.json'']\<rparr>"
    by (simp add: ex_watched_def)
  have d: "native_value (ex_sensor 1 4)
       (snd (step (FileModified ''/config/em06_monthly_energy.json'')
               (snd (step FireUserReset ex_watched)))) = Inr 0"
    using t' [THEN conjunct2, THEN conjunct2, THEN conjunct2, THEN conjunct2, THEN conjunct2,
              THEN spec, of "\<lparr>sensor_instance = ex_sensor 1 4,
                   file_paths = [''/config/em06_monthly_energy.json'',
                                 ''/config/em06_daily_energy.json'']\<rparr>"] w
    unfolding p by (simp add: ex_sensor_def ex_device_def)
  from a b c d show ?thesis by simp
qed

text \<open>
  Claim C2 as stated fails: immediately after the job, with the device value still the
  5000 that the job read and negated into the file, the month sensor reads 4800 as
  before, not 0.
\<close>

theorem user_reset_not_immediate:
  "fst (save_user_reset ex_state) = None
   \<and> value_or_0 ex_device 1 ''mConsume'' = 5000
   \<and> files (snd (save_user_reset ex_state)) ''/config/em06_monthly_energy.json'' =
       Holds (JObj [(''1'', JNum (- 5000)), (''2'', JNum 0)])
   \<and> native_value (ex_sensor 1 4) (snd (save_user_reset ex_state)) = Inr 4800"
  by (simp add: save_user_reset_def save_user_reset_device_def ex_state_def ex_device_def
        ex_sensor_def SENSORS_EM_def native_value_def try_dump_def dump_file_def log_msg_def
        monthly_energy_file_path_def json_of_energy_data_def user_energy_data_def
        value_or_0_def py_add_def str_int_1 str_int_2)

section \<open>Capturing the total before the device resets\<close>

lemma py_get_offset:
  assumes "offset_mapping cache"
  shows "\<exists>v. py_get cache (str_int c) (JNum 0) = Inr v \<and> as_number v = Some (offset_at cache c)"
proof -
  from assms obtain kvs where c: "cache = JObj kvs"
    by (cases cache) (simp_all add: offset_mapping_def)
  from lookup_numeric[of kvs "str_int c"] assms c
  obtain r where "as_number (case map_of kvs (str_int c) of None \<Rightarrow> JNum 0 | Some v \<Rightarrow> v) = Some r"
    by blast
  with c show ?thesis by (auto simp: offset_at_def split: option.splits)
qed

lemma py_add_offset:
  assumes "offset_mapping cache"
  shows "(case py_get cache (str_int c) (JNum 0) of Inl e \<Rightarrow> Inl e
          | Inr stored \<Rightarrow> py_add x stored) = Inr (x + offset_at cache c)"
  using py_get_offset[OF assms, of c] by (auto simp: py_add_def)

lemma device_energy_data_ok:
  assumes "offset_mapping cache"
  shows "device_energy_data cache d cs acc = Inr (adjusted_data cache d cs acc)"
proof (induction cs arbitrary: acc)
  case Nil
  show ?case by (simp add: adjusted_data_def)
next
  case (Cons c cs)
  from py_get_offset[OF assms, of c] obtain v where
    "py_get cache (str_int c) (JNum 0) = Inr v" "as_number v = Some (offset_at cache c)" by blast
  then show ?case using Cons
    by (simp add: adjusted_data_def py_add_def value_or_0_reading)
qed

lemma save_device_reset_from_ok:
  assumes "offset_mapping (cached_monthly_energy_data s)"
    and "cached_monthly_energy_data s = cached_monthly_energy_data s0"
  shows "save_device_reset_from ds s =
     (None, fold (\<lambda>d s. if \<not> is_electricity d then s
                   else try_dump (monthly_energy_file_path d)
                          (json_of_energy_data (adjusted_data (cached_monthly_energy_data s0) d (channels d) []))
                          ''Saved adjusted energy data for device %s''
                          ''Failed to save adjusted energy data: %s'' s) ds s)"
  using assms
  by (induction ds arbitrary: s) (simp_all add: device_energy_data_ok)

lemma adjusted_data_lookup:
  "map_of (adjusted_data cache d (channels d) []) c =
     (if c \<in> set (channels d) then Some (reading d c ''mConsume'' + offset_at cache c) else None)"
  by (simp add: adjusted_data_def map_of_fold_update_id)

lemma native_value_month:
  assumes "offset_mapping (cached_monthly_energy_data s)"
    and "cached_daily_energy_data s = JObj dl"
    and "entity_description sn = SENSORS_EM ! 4"
  shows "native_value sn s =
     Inr (reading (sensor_device sn) (channel_id sn) ''mConsume''
          + offset_at (cached_monthly_energy_data s) (channel_id sn))"
proof -
  from py_get_offset[OF assms(1), of "channel_id sn"] obtain v where
    "py_get (cached_monthly_energy_data s) (str_int (channel_id sn)) (JNum 0) = Inr v"
    "as_number v = Some (offset_at (cached_monthly_energy_data s) (channel_id sn))" by blast
  with assms(2,3) show ?thesis
    by (simp add: native_value_def SENSORS_EM_def value_or_0_reading py_add_def)
qed

text \<open>
  Claim C3, as the code has it.  With the cached monthly mapping a mapping of numbers,
  \<open>save_device_reset\<close> returns normally, and for every electricity device \<open>d\<close> (owning its
  file alone, the write going through) the monthly file of \<open>d\<close> then holds, for every
  channel, the device reading plus the cached monthly offset.  The job leaves the cache
  alone: if the device counter drops to 0 right after it, the \<open>this_month_energy\<close> sensor
  reads the old offset alone.  It reads what it read before the job once the file has
  been loaded: by \<open>load_energy_data\<close> of a sensor of \<open>d\<close>, which is what the observer's
  report of the file runs when the observer was started by a sensor of \<open>d\<close> and watches
  the file.
\<close>

theorem device_reset_keeps_month:
  assumes "offset_mapping (cached_monthly_energy_data s)"
    and "cached_daily_energy_data s = JObj dl"
    and "d \<in> set (coordinators s)" and "is_electricity d"
    and "\<forall>d'\<in>set (coordinators s). is_electricity d' \<and> dev_name d' = dev_name d \<longrightarrow> d' = d"
    and "open_w s (monthly_energy_file_path d) = WriteOk"
    and "c \<in> set (channels d)"
    and "sensor_device sn = d" and "channel_id sn = c"
    and "entity_description sn = SENSORS_EM ! 4"
    and "dev_name (sensor_device sn0) = dev_name d" and "channel_id sn0 = c"
    and "entity_description sn0 = SENSORS_EM ! 4"
    and "reading (sensor_device sn0) c ''mConsume'' = 0"
  shows "fst (save_device_reset s) = None
     \<and> (\<exists>kvs. files (snd (save_device_reset s)) (monthly_energy_file_path d) = Holds (JObj kvs)
           \<and> (\<forall>c'\<in>set (channels d).
                 map_of kvs (str_int c') =
                   Some (JNum (reading d c' ''mConsume''
                               + offset_at (cached_monthly_energy_data s) c'))))
     \<and> native_value sn s =
         Inr (reading d c ''mConsume'' + offset_at (cached_monthly_energy_data s) c)
     \<and> native_value sn0 (snd (save_device_reset s)) =
         Inr (offset_at (cached_monthly_energy_data s) c)
     \<and> fst (load_energy_data sn0 (snd (save_device_reset s))) = None
     \<and> native_value sn0 (snd (load_energy_data sn0 (snd (save_device_reset s))))
         = native_value sn s
     \<and> (\<forall>w. observer s = Some w
              \<and> dev_name (sensor_device (sensor_instance w)) = dev_name d
              \<and> monthly_energy_file_path d \<in> set (file_paths w) \<longrightarrow>
            fst (step (FileModified (monthly_energy_file_path d))
                   (snd (step FireDeviceReset s))) = None
            \<and> native_value sn0 (snd (step (FileModified (monthly_energy_file_path d))
                                       (snd (step FireDeviceReset s))))
                = native_value sn s)"
proof -
  let ?cache = "cached_monthly_energy_data s"
  let ?p = "monthly_energy_file_path d"
  let ?doc = "\<lambda>d. json_of_energy_data (adjusted_data ?cache d (channels d) [])"
  let ?body = "\<lambda>d s. if \<not> is_electricity d then s
                   else try_dump (monthly_energy_file_path d) (?doc d)
                          ''Saved adjusted energy data for device %s''
                          ''Failed to save adjusted energy data: %s'' s"
  let ?s1 = "snd (save_device_reset s)"
  let ?kvs = "map (\<lambda>(k, v). (str_int k, JNum v)) (adjusted_data ?cache d (channels d) [])"
  let ?v = "reading d c ''mConsume'' + offset_at ?cache c"
  have job: "save_device_reset s = (None, fold ?body (coordinators s) s)"
    using save_device_reset_from_ok [OF assms(1), of s "coordinators s"]
    by (simp add: save_device_reset_def)
  have same: "\<forall>d'\<in>set (coordinators s). is_electricity d' \<and>
          monthly_energy_file_path d' = monthly_energy_file_path d \<longrightarrow> ?doc d' = ?doc d"
    using assms(5) by auto
  have fl: "files ?s1 ?p = Holds (JObj ?kvs)"
    using fold_dump_last [of d "coordinators s" s monthly_energy_file_path ?doc,
        OF assms(3,4,6) same]
    by (simp add: job json_of_energy_data_def)
  have look: "\<forall>c'\<in>set (channels d).
      map_of ?kvs (str_int c') = Some (JNum (reading d c' ''mConsume'' + offset_at ?cache c'))"
    by (simp add: map_of_json_keys adjusted_data_lookup)
  have lookc: "map_of ?kvs (str_int (channel_id sn0)) = Some (JNum ?v)"
    using look assms(7,12) by simp
  have fr: "cached_monthly_energy_data ?s1 = ?cache"
    "cached_daily_energy_data ?s1 = cached_daily_energy_data s" "observer ?s1 = observer s"
    using save_device_reset_from_frame[of "coordinators s" s]
    by (simp_all add: save_device_reset_def)
  have daily1: "cached_daily_energy_data ?s1 = JObj dl" using fr assms(2) by simp
  have before: "native_value sn s = Inr ?v"
    using native_value_month [OF assms(1,2,10)] assms(8,9) by simp
  have "native_value sn0 ?s1 = native_value sn0 s"
    using fr by (intro native_value_cong) simp_all
  also have "\<dots> = Inr (offset_at ?cache c)"
    using native_value_month [OF assms(1,2,13)] assms(12,14) by simp
  finally have stale: "native_value sn0 ?s1 = Inr (offset_at ?cache c)" .
  have path: "monthly_energy_file_path (sensor_device sn0) = ?p"
    using assms(11) by simp
  from load_energy_data_holds [of ?s1 sn0 "JObj ?kvs"] fl path
  have ld: "fst (load_energy_data sn0 ?s1) = None"
    and m2: "cached_monthly_energy_data (snd (load_energy_data sn0 ?s1)) = JObj ?kvs"
    and d2: "cached_daily_energy_data (snd (load_energy_data sn0 ?s1)) = JObj dl"
    using daily1 by simp_all
  have after: "native_value sn0 (snd (load_energy_data sn0 ?s1)) = native_value sn s"
    using native_value_this_month [OF m2 d2 assms(13) lookc] assms(12,14) before by simp
  have watch: "\<forall>w. observer s = Some w
              \<and> dev_name (sensor_device (sensor_instance w)) = dev_name d
              \<and> ?p \<in> set (file_paths w) \<longrightarrow>
            fst (step (FileModified ?p) (snd (step FireDeviceReset s))) = None
            \<and> native_value sn0 (snd (step (FileModified ?p) (snd (step FireDeviceReset s))))
                = native_value sn s"
  proof (intro allI impI)
    fix w
    assume h: "observer s = Some w
              \<and> dev_name (sensor_device (sensor_instance w)) = dev_name d
              \<and> ?p \<in> set (file_paths w)"
    let ?l = "log_msg Info ''Detected change in %s, reloading energy data.'' ?s1"
    have st: "step (FileModified ?p) (snd (step FireDeviceReset s)) =
                load_energy_data (sensor_instance w) ?l"
      using h fr(3) on_modified_monthly[of d w ?s1] by simp
    have pw: "monthly_energy_file_path (sensor_device (sensor_instance w)) = ?p"
      using h by simp
    from load_energy_data_log_msg [of ?s1 "sensor_instance w" "JObj ?kvs"] fl pw
    have l1: "fst (load_energy_data (sensor_instance w) ?l) = None"
      and l2: "cached_monthly_energy_data (snd (load_energy_data (sensor_instance w) ?l))
                 = JObj ?kvs"
      and l3: "cached_daily_energy_data (snd (load_energy_data (sensor_instance w) ?l))
                 = JObj dl"
      using daily1 by simp_all
    have "native_value sn0 (snd (load_energy_data (sensor_instance w) ?l)) = native_value sn s"
      using native_value_this_month [OF l2 l3 assms(13) lookc] assms(12,14) before by simp
    with l1 show "fst (step (FileModified ?p) (snd (step FireDeviceReset s))) = None
            \<and> native_value sn0 (snd (step (FileModified ?p) (snd (step FireDeviceReset s))))
                = native_value sn s"
      unfolding st by simp
  qed
  have r: "fst (save_device_reset s) = None" by (simp add: job)
  from r fl look before stale ld after watch show ?thesis by blast
qed

text \<open>
  At the example state the month sensor of channel 1 reads 5000 - 200 = 4800; the job
  writes 4800, and with the device back at 0 and the file loaded, directly or by the
  observer's report, it still reads 4800.
\<close>

theorem device_reset_keeps_month_witness:
  "native_value (ex_sensor 1 4) ex_watched = Inr 4800
   \<and> files (snd (save_device_reset ex_watched)) ''/config/em06_monthly_energy.json'' =
       Holds (JObj [(''1'', JNum 4800), (''2'', JNum 0)])
   \<and> native_value (ex_sensor0 1 4)
       (snd (load_energy_data (ex_sensor0 1 4) (snd (save_device_reset ex_watched)))) = Inr 4800
   \<and> native_value (ex_sensor0 1 4)
       (snd (step (FileModified ''/config/em06_monthly_energy.json'')
               (snd (step FireDeviceReset ex_watched)))) = Inr 4800"
proof -
  have a: "native_value (ex_sensor 1 4) ex_watched = Inr 4800"
    by (simp add: native_value_def ex_sensor_def ex_watched_def ex_state_def SENSORS_EM_def
          ex_device_def value_or_0_def py_add_def str_int_1)
  have b: "files (snd (save_device_reset ex_watched)) ''/config/em06_monthly_energy.json'' =
       Holds (JObj [(''1'', JNum 4800), (''2'', JNum 0)])"
    by (simp add: save_device_reset_def ex_watched_def ex_state_def ex_device_def
          try_dump_def dump_file_def log_msg_def monthly_energy_file_path_def
          json_of_energy_data_def value_or_0_def py_add_def str_int_1 str_int_2)
  have p: "monthly_energy_file_path ex_device = ''/config/em06_monthly_energy.json''"
    by (simp add: monthly_energy_file_path_def ex_device_def)
  have hyp: "offset_mapping (cached_monthly_energy_data ex_watched)"
    "cached_daily_energy_data ex_watched = JObj [(''1'', JNum 300)]"
    "ex_device \<in> set (coordinators ex_watched)" "is_electricity ex_device"
    "\<forall>d'\<in>set (coordinators ex_watched).
        is_electricity d' \<and> dev_name d' = dev_name ex_device \<longrightarrow> d' = ex_device"
    "open_w ex_watched (monthly_energy_file_path ex_device) = WriteOk"
    "1 \<in> set (channels ex_device)"
    "sensor_device (ex_sensor 1 4) = ex_device"
    "channel_id (ex_sensor 1 4) = 1"
    "entity_description (ex_sensor 1 4) = SENSORS_EM ! 4"
    "dev_name (sensor_device (ex_sensor0 1 4)) = dev_name ex_device"
    "channel_id (ex_sensor0 1 4) = 1"
    "entity_description (ex_sensor0 1 4) = SENSORS_EM ! 4"
    "reading (sensor_device (ex_sensor0 1 4)) 1 ''mConsume'' = 0"
    by (simp_all add: ex_watched_def ex_state_def ex_sensor_def ex_sensor0_def ex_device_def
          ex_device0_def offset_mapping_def reading_def)
  note t = device_reset_keeps_month [OF hyp]
  have c: "native_value (ex_sensor0 1 4)
       (snd (load_energy_data (ex_sensor0 1 4) (snd (save_device_reset ex_watched)))) = Inr 4800"
    using t a by simp
  have w: "observer ex_watched =
             Some \<lparr>sensor_instance = ex_sensor 1 4,
                   file_paths = [''/config/em06_monthly_energy.json'',
                                 ''/config/em06_daily_energy.json'']\<rparr>"
    by (simp add: ex_watched_def)
  have d: "native_value (ex_sensor0 1 4)
       (snd (step (FileModified ''/config/em06_monthly_energy.json'')
               (snd (step FireDeviceReset ex_watched)))) = Inr 4800"
    using t [THEN conjunct2, THEN conjunct2, THEN conjunct2, THEN conjunct2, THEN conjunct2,
             THEN conjunct2,
             THEN spec, of "\<lparr>sensor_instance = ex_sensor 1 4,
                   file_paths = [''/config/em06_monthly_energy.json'',
                                 ''/config/em06_daily_energy.json'']\<rparr>"] w a
    unfolding p by (simp add: ex_sensor_def ex_device_def)
  from a b c d show ?thesis by simp
qed

text \<open>
  Claim C3 as stated fails: after the job, with the device counter at 0 and the cache
  not yet reloaded, the month sensor reads the old offset -200, not the 4800 it read
  before the reset.
\<close>

theorem device_reset_not_immediate:
  "native_value (ex_sensor 1 4) ex_state = Inr 4800
   \<and> fst (save_device_reset ex_state) = None
   \<and> files (snd (save_device_reset ex_state)) ''/config/em06_monthly_energy.json'' =
       Holds (JObj [(''1'', JNum 4800), (''2'', JNum 0)])
   \<and> value_or_0 ex_device0 1 ''mConsume'' = 0
   \<and> native_value (ex_sensor0 1 4) (snd (save_device_reset ex_state)) = Inr (- 200)"
  by (simp add: save_device_reset_def ex_state_def ex_device_def ex_device0_def
        ex_sensor_def ex_sensor0_def SENSORS_EM_def native_value_def try_dump_def dump_file_def
        log_msg_def monthly_energy_file_path_def json_of_energy_data_def
        value_or_0_def py_add_def str_int_1 str_int_2)

section \<open>Reading a channel that a cache does not hold\<close>

lemma offset_at_missing: "map_of kvs (str_int c) = None \<Longrightarrow> offset_at (JObj kvs) c = 0"
  by (simp add: offset_at_def)

lemma offset_at_present:
  "map_of kvs (str_int c) = Some (JNum r) \<Longrightarrow> offset_at (JObj kvs) c = r"
  by (simp add: offset_at_def)

lemma native_value_offsets:
  assumes "cached_monthly_energy_data s = JObj m" and "cached_daily_energy_data s = JObj dl"
    and "offset_mapping (JObj m)" and "offset_mapping (JObj dl)"
  shows "native_value sn s = Inr (fn (entity_description sn)
           (if translation_key (entity_description sn) = ''this_day_energy''
            then reading (sensor_device sn) (channel_id sn) (subkey (entity_description sn))
                 + offset_at (JObj m) (channel_id sn) - offset_at (JObj dl) (channel_id sn)
            else if translation_key (entity_description sn) = ''this_month_energy''
            then reading (sensor_device sn) (channel_id sn) (subkey (entity_description sn))
                 + offset_at (JObj m) (channel_id sn)
            else reading (sensor_device sn) (channel_id sn) (subkey (entity_description sn))))"
proof -
  from py_get_offset[OF assms(3), of "channel_id sn"] obtain a where
    a: "py_get (JObj m) (str_int (channel_id sn)) (JNum 0) = Inr a"
       "as_number a = Some (offset_at (JObj m) (channel_id sn))" by blast
  from py_get_offset[OF assms(4), of "channel_id sn"] obtain b where
    b: "py_get (JObj dl) (str_int (channel_id sn)) (JNum 0) = Inr b"
       "as_number b = Some (offset_at (JObj dl) (channel_id sn))" by blast
  show ?thesis
    unfolding native_value_def assms(1,2) a b
    by (simp add: py_add_def py_sub_def a b value_or_0_reading Let_def)
qed

text \<open>
  Claim C10.  With the two caches mappings of numbers, \<open>native_value\<close> returns for every
  channel, whichever keys the mappings hold, the number given by the derivation formula
  in which the offset of a missing key is 0, and never \<open>KeyError\<close>.  So with the
  channel missing from the monthly mapping the month sensor reads the device value and
  the day sensor the device value minus the daily offset; with it missing from the daily
  mapping the day sensor reads the device value plus the monthly offset; with it missing
  from both, the device value.  In each case the read is the same as with the key present
  and mapped to 0.
\<close>

theorem native_value_missing_key:
  assumes "cached_monthly_energy_data s = JObj m" and "cached_daily_energy_data s = JObj dl"
    and "offset_mapping (JObj m)" and "offset_mapping (JObj dl)"
  shows "native_value sn s = Inr (fn (entity_description sn)
           (if translation_key (entity_description sn) = ''this_day_energy''
            then reading (sensor_device sn) (channel_id sn) (subkey (entity_description sn))
                 + offset_at (JObj m) (channel_id sn) - offset_at (JObj dl) (channel_id sn)
            else if translation_key (entity_description sn) = ''this_month_energy''
            then reading (sensor_device sn) (channel_id sn) (subkey (entity_description sn))
                 + offset_at (JObj m) (channel_id sn)
            else reading (sensor_device sn) (channel_id sn) (subkey (entity_description sn))))
     \<and> native_value sn s \<noteq> Inl KeyError
     \<and> (map_of m (str_int (channel_id sn)) = None \<longrightarrow> offset_at (JObj m) (channel_id sn) = 0)
     \<and> (map_of dl (str_int (channel_id sn)) = None \<longrightarrow> offset_at (JObj dl) (channel_id sn) = 0)
     \<and> (map_of m (str_int (channel_id sn)) = None
          \<and> translation_key (entity_description sn) = ''this_month_energy'' \<longrightarrow>
          native_value sn s = Inr (fn (entity_description sn)
            (reading (sensor_device sn) (channel_id sn) (subkey (entity_description sn)))))
     \<and> (map_of m (str_int (channel_id sn)) = None
          \<and> map_of dl (str_int (channel_id sn)) = Some (JNum dy)
          \<and> translation_key (entity_description sn) = ''this_day_energy'' \<longrightarrow>
          native_value sn s = Inr (fn (entity_description sn)
            (reading (sensor_device sn) (channel_id sn) (subkey (entity_description sn)) - dy)))
     \<and> (map_of m (str_int (channel_id sn)) = Some (JNum mo)
          \<and> map_of dl (str_int (channel_id sn)) = None
          \<and> translation_key (entity_description sn) = ''this_day_energy'' \<longrightarrow>
          native_value sn s = Inr (fn (entity_description sn)
            (reading (sensor_device sn) (channel_id sn) (subkey (entity_description sn)) + mo)))
     \<and> (map_of m (str_int (channel_id sn)) = None
          \<and> map_of dl (str_int (channel_id sn)) = None
          \<and> translation_key (entity_description sn) = ''this_day_energy'' \<longrightarrow>
          native_value sn s = Inr (fn (entity_description sn)
            (reading (sensor_device sn) (channel_id sn) (subkey (entity_description sn)))))
     \<and> (map_of m (str_int (channel_id sn)) = None \<longrightarrow>
          native_value sn s =
          native_value sn (s\<lparr>cached_monthly_energy_data :=
                               JObj (m @ [(str_int (channel_id sn), JNum 0)])\<rparr>))
     \<and> (map_of dl (str_int (channel_id sn)) = None \<longrightarrow>
          native_value sn s =
          native_value sn (s\<lparr>cached_daily_energy_data :=
                               JObj (dl @ [(str_int (channel_id sn), JNum 0)])\<rparr>))"
proof -
  note v = native_value_offsets[OF assms, of sn]
  have 2: "native_value sn s \<noteq> Inl KeyError" using v by simp
  have 3: "map_of m (str_int (channel_id sn)) = None \<longrightarrow> offset_at (JObj m) (channel_id sn) = 0"
          "map_of dl (str_int (channel_id sn)) = None \<longrightarrow> offset_at (JObj dl) (channel_id sn) = 0"
    by (simp_all add: offset_at_missing)
  have 5: "map_of m (str_int (channel_id sn)) = None
          \<and> translation_key (entity_description sn) = ''this_month_energy'' \<longrightarrow>
          native_value sn s = Inr (fn (entity_description sn)
            (reading (sensor_device sn) (channel_id sn) (subkey (entity_description sn))))"
    using v by (simp add: offset_at_missing)
  have 6: "map_of m (str_int (channel_id sn)) = None
          \<and> map_of dl (str_int (channel_id sn)) = Some (JNum dy)
          \<and> translation_key (entity_description sn) = ''this_day_energy'' \<longrightarrow>
          native_value sn s = Inr (fn (entity_description sn)
            (reading (sensor_device sn) (channel_id sn) (subkey (entity_description sn)) - dy))"
    using v by (simp add: offset_at_missing offset_at_present)
  have 7: "map_of m (str_int (channel_id sn)) = Some (JNum mo)
          \<and> map_of dl (str_int (channel_id sn)) = None
          \<and> translation_key (entity_description sn) = ''this_day_energy'' \<longrightarrow>
          native_value sn s = Inr (fn (entity_description sn)
            (reading (sensor_device sn) (channel_id sn) (subkey (entity_description sn)) + mo))"
    using v by (simp add: offset_at_missing offset_at_present)
  have 8: "map_of m (str_int (channel_id sn)) = None
          \<and> map_of dl (str_int (channel_id sn)) = None
          \<and> translation_key (entity_description sn) = ''this_day_energy'' \<longrightarrow>
          native_value sn s = Inr (fn (entity_description sn)
            (reading (sensor_device sn) (channel_id sn) (subkey (entity_description sn))))"
    using v by (simp add: offset_at_missing)
  have 9: "map_of m (str_int (channel_id sn)) = None \<longrightarrow>
          native_value sn s =
          native_value sn (s\<lparr>cached_monthly_energy_data :=
                               JObj (m @ [(str_int (channel_id sn), JNum 0)])\<rparr>)"
    using assms(1,2) by (simp add: native_value_def map_add_def Let_def)
  have 10: "map_of dl (str_int (channel_id sn)) = None \<longrightarrow>
          native_value sn s =
          native_value sn (s\<lparr>cached_daily_energy_data :=
                               JObj (dl @ [(str_int (channel_id sn), JNum 0)])\<rparr>)"
    using assms(1,2) by (simp add: native_value_def map_add_def Let_def)
  from v 2 3 5 6 7 8 9 10 show ?thesis by blast
qed

text \<open>
  Channel 1 of the example device reports 5000.  With a monthly mapping that holds
  channel 2 only, its day sensor reads 5000 + 0 - 300 = 4700 and its month sensor 5000;
  with an empty daily mapping its day sensor reads 5000 - 200 - 0 = 4800; with both
  mappings empty it reads 5000.
\<close>

theorem native_value_missing_key_witness:
  "map_of [(''2'', JNum 7)] (str_int 1) = None
   \<and> native_value (ex_sensor 1 5)
        (ex_state\<lparr>cached_monthly_energy_data := JObj [(''2'', JNum 7)]\<rparr>) = Inr 4700
   \<and> native_value (ex_sensor 1 4)
        (ex_state\<lparr>cached_monthly_energy_data := JObj [(''2'', JNum 7)]\<rparr>) = Inr 5000
   \<and> native_value (ex_sensor 1 5)
        (ex_state\<lparr>cached_daily_energy_data := JObj []\<rparr>) = Inr 4800
   \<and> native_value (ex_sensor 1 5)
        (ex_state\<lparr>cached_monthly_energy_data := JObj [], cached_daily_energy_data := JObj []\<rparr>)
       = Inr 5000"
proof -
  let ?s1 = "ex_state\<lparr>cached_monthly_energy_data := JObj [(''2'', JNum 7)]\<rparr>"
  let ?s2 = "ex_state\<lparr>cached_daily_energy_data := JObj []\<rparr>"
  let ?s3 = "ex_state\<lparr>cached_monthly_energy_data := JObj [], cached_daily_energy_data := JObj []\<rparr>"
  have k: "map_of [(''2'', JNum 7)] (str_int 1) = None" by (simp add: str_int_1)
  have om: "offset_mapping (JObj [(''2'', JNum 7)])" "offset_mapping (JObj [(''1'', JNum 300)])"
    "offset_mapping (JObj [(''1'', JNum (- 200))])" "offset_mapping (JObj [])"
    by (simp_all add: offset_mapping_def)
  have c1: "cached_monthly_energy_data ?s1 = JObj [(''2'', JNum 7)]"
           "cached_daily_energy_data ?s1 = JObj [(''1'', JNum 300)]"
    and c2: "cached_monthly_energy_data ?s2 = JObj [(''1'', JNum (- 200))]"
           "cached_daily_energy_data ?s2 = JObj []"
    and c3: "cached_monthly_energy_data ?s3 = JObj []" "cached_daily_energy_data ?s3 = JObj []"
    by (simp_all add: ex_state_def)
  note t1 = native_value_missing_key [OF c1 om(1,2), of "ex_sensor 1 5" 300 0]
  note t1' = native_value_missing_key [OF c1 om(1,2), of "ex_sensor 1 4" 300 0]
  note t2 = native_value_missing_key [OF c2 om(3,4), of "ex_sensor 1 5" 0 "- 200"]
  note t3 = native_value_missing_key [OF c3 om(4,4), of "ex_sensor 1 5" 0 0]
  have a: "native_value (ex_sensor 1 5) ?s1 = Inr 4700"
    using t1 [THEN conjunct2, THEN conjunct2, THEN conjunct2, THEN conjunct2,
              THEN conjunct2, THEN conjunct1]
    by (simp add: ex_sensor_def SENSORS_EM_def reading_def ex_device_def str_int_1)
  have b: "native_value (ex_sensor 1 4) ?s1 = Inr 5000"
    using t1' [THEN conjunct2, THEN conjunct2, THEN conjunct2, THEN conjunct2, THEN conjunct1]
    by (simp add: ex_sensor_def SENSORS_EM_def reading_def ex_device_def str_int_1)
  have c: "native_value (ex_sensor 1 5) ?s2 = Inr 4800"
    using t2 [THEN conjunct2, THEN conjunct2, THEN conjunct2, THEN conjunct2,
              THEN conjunct2, THEN conjunct2, THEN conjunct1]
    by (simp add: ex_sensor_def SENSORS_EM_def reading_def ex_device_def str_int_1)
  have d: "native_value (ex_sensor 1 5) ?s3 = Inr 5000"
    using t3 [THEN conjunct2, THEN conjunct2, THEN conjunct2, THEN conjunct2,
              THEN conjunct2, THEN conjunct2, THEN conjunct2, THEN conjunct1]
    by (simp add: ex_sensor_def SENSORS_EM_def reading_def ex_device_def)
  from k a b c d show ?thesis by simp
qed

section \<open>Saving and loading an offset mapping\<close>

lemma load_daily_energy_data_holds:
  "files s (daily_energy_file_path (sensor_device sn)) = Holds j \<Longrightarrow>
   fst (load_daily_energy_data sn s) = None \<and>
   cached_daily_energy_data (snd (load_daily_energy_data sn s)) = j \<and>
   cached_monthly_energy_data (snd (load_daily_energy_data sn s)) = cached_monthly_energy_data s"
  by (simp add: load_daily_energy_data_def log_msg_def)

lemma py_get_json_of_energy_data:
  "py_get (json_of_energy_data energy_data) (str_int c) dflt =
     Inr (case map_of energy_data c of None \<Rightarrow> dflt | Some v \<Rightarrow> JNum v)"
  by (simp add: json_of_energy_data_def map_of_json_keys split: option.splits)

lemma keys_json_of_energy_data:
  "json_of_energy_data energy_data = JObj kvs \<Longrightarrow> fst ` set kvs = str_int ` fst ` set energy_data"
  by (force simp: json_of_energy_data_def)

text \<open>
  Claim C7.  Whatever offset mapping a job has built (a dictionary keyed by channel
  numbers), when the \<open>open\<close>/\<open>json.dump\<close> block writes it to the monthly (or daily) file of
  a sensor's device and \<open>load_energy_data\<close> (or \<open>load_daily_energy_data\<close>) then loads
  that file, the load does not raise and the cache is the mapping saved, its keys the
  channels' \<open>str\<close>: read by \<open>.get(str(c), 0)\<close> it returns for every channel \<open>c\<close> the
  value saved for \<open>c\<close>, and it has no other keys.
\<close>

theorem save_load_roundtrip:
  assumes "open_w s (monthly_energy_file_path (sensor_device sn)) = WriteOk"
    and "open_w s (daily_energy_file_path (sensor_device sn)) = WriteOk"
  shows "(let s1 = try_dump (monthly_energy_file_path (sensor_device sn))
                     (json_of_energy_data energy_data) saved failed s;
              r = load_energy_data sn s1
          in fst r = None
             \<and> cached_monthly_energy_data (snd r) = json_of_energy_data energy_data
             \<and> (\<forall>c. py_get (cached_monthly_energy_data (snd r)) (str_int c) (JNum 0) =
                      Inr (case map_of energy_data c of None \<Rightarrow> JNum 0 | Some v \<Rightarrow> JNum v)))
       \<and> (let s1 = try_dump (daily_energy_file_path (sensor_device sn))
                     (json_of_energy_data energy_data) saved failed s;
              r = load_daily_energy_data sn s1
          in fst r = None
             \<and> cached_daily_energy_data (snd r) = json_of_energy_data energy_data
             \<and> (\<forall>c. py_get (cached_daily_energy_data (snd r)) (str_int c) (JNum 0) =
                      Inr (case map_of energy_data c of None \<Rightarrow> JNum 0 | Some v \<Rightarrow> JNum v)))
       \<and> (\<exists>kvs. json_of_energy_data energy_data = JObj kvs
                \<and> fst ` set kvs = str_int ` fst ` set energy_data)"
proof -
  have m: "files (try_dump (monthly_energy_file_path (sensor_device sn))
                     (json_of_energy_data energy_data) saved failed s)
             (monthly_energy_file_path (sensor_device sn)) = Holds (json_of_energy_data energy_data)"
    using assms(1) by (rule try_dump_ok)
  have d: "files (try_dump (daily_energy_file_path (sensor_device sn))
                     (json_of_energy_data energy_data) saved failed s)
             (daily_energy_file_path (sensor_device sn)) = Holds (json_of_energy_data energy_data)"
    using assms(2) by (rule try_dump_ok)
  have k: "\<exists>kvs. json_of_energy_data energy_data = JObj kvs
                \<and> fst ` set kvs = str_int ` fst ` set energy_data"
    using keys_json_of_energy_data[of energy_data] by (simp add: json_of_energy_data_def)
  from load_energy_data_holds[OF m] load_daily_energy_data_holds[OF d] k
  show ?thesis by (simp add: Let_def py_get_json_of_energy_data)
qed

theorem save_load_roundtrip_witness:
  "cached_monthly_energy_data
     (snd (load_energy_data (ex_sensor 1 4)
        (try_dump ''/config/em06_monthly_energy.json''
           (json_of_energy_data [(1, - 5000), (2, 0)]) ''saved'' ''failed'' ex_state)))
   = JObj [(''1'', JNum (- 5000)), (''2'', JNum 0)]
   \<and> py_get (cached_monthly_energy_data
        (snd (load_energy_data (ex_sensor 1 4)
          (try_dump ''/config/em06_monthly_energy.json''
             (json_of_energy_data [(1, - 5000), (2, 0)]) ''saved'' ''failed'' ex_state))))
        (str_int 1) (JNum 0) = Inr (JNum (- 5000))"
proof -
  have p: "monthly_energy_file_path (sensor_device (ex_sensor 1 4)) =
             ''/config/em06_monthly_energy.json''"
    by (simp add: monthly_energy_file_path_def ex_sensor_def ex_device_def)
  have w: "open_w ex_state (monthly_energy_file_path (sensor_device (ex_sensor 1 4))) = WriteOk"
    and w': "open_w ex_state (daily_energy_file_path (sensor_device (ex_sensor 1 4))) = WriteOk"
    by (simp_all add: ex_state_def)
  from save_load_roundtrip [OF w w', of "[(1, - 5000), (2, 0)]" "''saved''" "''failed''"]
  show ?thesis
    unfolding p by (simp add: Let_def json_of_energy_data_def str_int_1 str_int_2)
qed

section \<open>When the monthly cache changes\<close>

text \<open>
  Claim C9.  \<open>save_user_reset\<close> and \<open>save_device_reset\<close> leave both in-memory caches as
  they are, and of the files they can change only the monthly files of the electricity
  devices among the coordinators.  Over all events, the monthly cache used by
  \<open>native_value\<close> changes only in an event that runs \<open>load_energy_data\<close>: the creation of
  a sensor, or the observer's report of a watched monthly file.
\<close>

theorem reset_jobs_leave_cache:
  "cached_monthly_energy_data (snd (save_user_reset s)) = cached_monthly_energy_data s
   \<and> cached_daily_energy_data (snd (save_user_reset s)) = cached_daily_energy_data s
   \<and> cached_monthly_energy_data (snd (save_device_reset s)) = cached_monthly_energy_data s
   \<and> cached_daily_energy_data (snd (save_device_reset s)) = cached_daily_energy_data s
   \<and> (\<forall>p. (\<forall>d\<in>set (coordinators s). is_electricity d \<longrightarrow> monthly_energy_file_path d \<noteq> p)
          \<longrightarrow> files (snd (save_user_reset s)) p = files s p
              \<and> files (snd (save_device_reset s)) p = files s p)
   \<and> (\<forall>e. cached_monthly_energy_data (snd (step e s)) \<noteq> cached_monthly_energy_data s
          \<longrightarrow> performs_monthly_load e s)"
  using save_user_reset_frame[of s] save_device_reset_from_frame[of "coordinators s" s]
    save_user_reset_other[of s] save_device_reset_from_other[of "coordinators s" _ s]
    step_monthly_cache[of _ s]
  by (auto simp: save_device_reset_def)

text \<open>
  At the example state, with the observer installed by the month sensor of channel 1:
  the user reset leaves the cache at \<open>-200\<close> and the daily file missing, a daily reset
  leaves the monthly cache alone, and only the observer's report of the monthly file
  brings the written \<open>-5000\<close> into the cache.
\<close>

theorem reset_jobs_leave_cache_witness:
  "cached_monthly_energy_data (snd (save_user_reset ex_watched)) = JObj [(''1'', JNum (- 200))]
   \<and> files (snd (save_user_reset ex_watched)) ''/config/em06_daily_energy.json'' = Missing
   \<and> cached_monthly_energy_data (snd (step (FireDailyReset 24) ex_watched)) =
        JObj [(''1'', JNum (- 200))]
   \<and> cached_monthly_energy_data
        (snd (step (FileModified ''/config/em06_monthly_energy.json'')
                (snd (step FireUserReset ex_watched)))) =
        JObj [(''1'', JNum (- 5000)), (''2'', JNum 0)]"
proof -
  note main = reset_jobs_leave_cache [of ex_watched]
  have c: "cached_monthly_energy_data ex_watched = JObj [(''1'', JNum (- 200))]"
    and f: "files ex_watched ''/config/em06_daily_energy.json'' = Missing"
    by (simp_all add: ex_watched_def ex_state_def)
  have 1: "cached_monthly_energy_data (snd (save_user_reset ex_watched)) =
             JObj [(''1'', JNum (- 200))]"
    using main c by simp
  have "\<forall>d\<in>set (coordinators ex_watched). is_electricity d \<longrightarrow>
          monthly_energy_file_path d \<noteq> ''/config/em06_daily_energy.json''"
    by (simp add: ex_watched_def ex_state_def ex_device_def monthly_energy_file_path_def)
  with main f have 2: "files (snd (save_user_reset ex_watched))
                        ''/config/em06_daily_energy.json'' = Missing"
    by simp
  have "\<not> performs_monthly_load (FireDailyReset 24) ex_watched"
    by (simp add: performs_monthly_load_def)
  with main c have 3: "cached_monthly_energy_data (snd (step (FireDailyReset 24) ex_watched)) =
        JObj [(''1'', JNum (- 200))]"
    by metis
  have 4: "cached_monthly_energy_data
        (snd (step (FileModified ''/config/em06_monthly_energy.json'')
                (snd (step FireUserReset ex_watched)))) =
        JObj [(''1'', JNum (- 5000)), (''2'', JNum 0)]"
    by (simp add: save_user_reset_def save_user_reset_device_def ex_watched_def ex_state_def
          ex_sensor_def ex_device_def try_dump_def dump_file_def log_msg_def on_modified_def
          endswith_def load_energy_data_def monthly_energy_file_path_def
          daily_energy_file_path_def json_of_energy_data_def user_energy_data_def
          value_or_0_def str_int_1 str_int_2)
  from 1 2 3 4 show ?thesis by simp
qed

section \<open>A write that fails\<close>

lemma try_dump_open_fails:
  "open_w s p = OpenFails \<Longrightarrow> files (try_dump p doc a b s) = files s"
  by (simp add: try_dump_def dump_file_def)

lemma try_dump_logs_failure:
  "open_w s p \<noteq> WriteOk \<Longrightarrow> (Error, b) \<in> set (logged (try_dump p doc a b s))"
  by (simp add: try_dump_def dump_file_def log_msg_def split: write_outcome.splits)

lemma try_dump_log_mono: "set (logged s) \<subseteq> set (logged (try_dump p doc a b s))"
  by (auto simp: try_dump_def dump_file_def log_msg_def split: write_outcome.splits)

lemma try_dump_keeps:
  "open_w s q = OpenFails \<Longrightarrow> files (try_dump p doc a b s) q = files s q"
  by (cases "q = p") (simp_all add: try_dump_open_fails try_dump_other)

text \<open>The user job.\<close>

lemma fold_dump_keeps:
  fixes path :: "device \<Rightarrow> string" and doc :: "device \<Rightarrow> json" and a b :: string
  defines "body \<equiv> (\<lambda>d s. if \<not> is_electricity d then s else try_dump (path d) (doc d) a b s)"
  assumes "open_w s q = OpenFails"
  shows "files (fold body ds s) q = files s q"
  using assms(2) by (induction ds arbitrary: s) (simp_all add: body_def try_dump_keeps)

lemma fold_dump_log_mono:
  fixes path :: "device \<Rightarrow> string" and doc :: "device \<Rightarrow> json" and a b :: string
  defines "body \<equiv> (\<lambda>d s. if \<not> is_electricity d then s else try_dump (path d) (doc d) a b s)"
  shows "set (logged s) \<subseteq> set (logged (fold body ds s))"
proof (induction ds arbitrary: s)
  case Nil
  show ?case by simp
next
  case (Cons d ds)
  have "set (logged s) \<subseteq> set (logged (body d s))"
    using try_dump_log_mono by (simp add: body_def)
  with Cons[of "body d s"] show ?case by auto
qed

lemma fold_dump_logs_failure:
  fixes path :: "device \<Rightarrow> string" and doc :: "device \<Rightarrow> json" and a b :: string
  defines "body \<equiv> (\<lambda>d s. if \<not> is_electricity d then s else try_dump (path d) (doc d) a b s)"
  assumes "d \<in> set ds" and "is_electricity d" and "open_w s (path d) \<noteq> WriteOk"
  shows "(Error, b) \<in> set (logged (fold body ds s))"
  using assms(2,4)
proof (induction ds arbitrary: s)
  case Nil
  then show ?case by simp
next
  case (Cons x xs)
  have ow: "open_w (body x s) = open_w s" by (simp add: body_def)
  show ?case
  proof (cases "x = d")
    case True
    with assms(3) Cons.prems have "(Error, b) \<in> set (logged (body x s))"
      by (simp add: body_def try_dump_logs_failure)
    with fold_dump_log_mono[of "body x s" path doc a b xs] show ?thesis
      by (auto simp: body_def)
  next
    case False
    with Cons.prems have "d \<in> set xs" by simp
    from Cons.IH[OF this, of "body x s"] Cons.prems ow show ?thesis by simp
  qed
qed

text \<open>The device job.\<close>

lemma save_device_reset_from_keeps:
  "open_w s q = OpenFails \<Longrightarrow> files (snd (save_device_reset_from ds s)) q = files s q"
  by (induction ds arbitrary: s) (simp_all add: try_dump_keeps split: sum.splits)

lemma save_device_reset_from_log_mono:
  "set (logged s) \<subseteq> set (logged (snd (save_device_reset_from ds s)))"
proof (induction ds arbitrary: s)
  case Nil
  show ?case by simp
next
  case (Cons d ds)
  show ?case
  proof (cases "is_electricity d")
    case False
    with Cons[of s] show ?thesis by simp
  next
    case True
    show ?thesis
    proof (cases "device_energy_data (cached_monthly_energy_data s) d (channels d) []")
      case (Inl e)
      with True show ?thesis by simp
    next
      case (Inr data)
      let ?s1 = "try_dump (monthly_energy_file_path d) (json_of_energy_data data)
                 ''Saved adjusted energy data for device %s''
                 ''Failed to save adjusted energy data: %s'' s"
      have "set (logged s) \<subseteq> set (logged ?s1)" by (rule try_dump_log_mono)
      also have "\<dots> \<subseteq> set (logged (snd (save_device_reset_from ds ?s1)))" by (rule Cons)
      finally show ?thesis using True Inr by simp
    qed
  qed
qed

lemma save_device_reset_from_logs_failure:
  assumes "fst (save_device_reset_from ds s) = None" and "d \<in> set ds" and "is_electricity d"
    and "open_w s (monthly_energy_file_path d) \<noteq> WriteOk"
  shows "(Error, ''Failed to save adjusted energy data: %s'')
           \<in> set (logged (snd (save_device_reset_from ds s)))"
  using assms(1,2,4)
proof (induction ds arbitrary: s)
  case Nil
  then show ?case by simp
next
  case (Cons x xs)
  show ?case
  proof (cases "x = d")
    case True
    with assms(3) Cons.prems(1) obtain data where
      data: "device_energy_data (cached_monthly_energy_data s) d (channels d) [] = Inr data"
      by (auto split: sum.splits)
    let ?s1 = "try_dump (monthly_energy_file_path d) (json_of_energy_data data)
                 ''Saved adjusted energy data for device %s''
                 ''Failed to save adjusted energy data: %s'' s"
    have "(Error, ''Failed to save adjusted energy data: %s'') \<in> set (logged ?s1)"
      using Cons.prems(3) by (rule try_dump_logs_failure)
    with save_device_reset_from_log_mono[of ?s1 xs] True assms(3) data
    show ?thesis by auto
  next
    case False
    with Cons.prems have d: "d \<in> set xs" by simp
    show ?thesis
    proof (cases "is_electricity x")
      case True
      with Cons.prems(1) obtain data where
        data: "device_energy_data (cached_monthly_energy_data s) x (channels x) [] = Inr data"
        by (auto split: sum.splits)
      let ?s1 = "try_dump (monthly_energy_file_path x) (json_of_energy_data data)
                 ''Saved adjusted energy data for device %s''
                 ''Failed to save adjusted energy data: %s'' s"
      from Cons.prems(1) True data have "fst (save_device_reset_from xs ?s1) = None" by simp
      from Cons.IH[OF this d] Cons.prems(3) True data show ?thesis by simp
    next
      case F: False
      with Cons.prems(1) have "fst (save_device_reset_from xs s) = None" by simp
      from Cons.IH[OF this d] Cons.prems(3) F show ?thesis by simp
    qed
  qed
qed

lemma save_device_reset_from_raises_same:
  "cached_monthly_energy_data s = cache \<Longrightarrow> cached_monthly_energy_data s' = cache \<Longrightarrow>
   fst (save_device_reset_from ds s) = fst (save_device_reset_from ds s')"
proof (induction ds arbitrary: s s')
  case Nil
  show ?case by simp
next
  case (Cons d ds)
  show ?case
  proof (cases "is_electricity d")
    case False
    with Cons.IH[OF Cons.prems] show ?thesis by simp
  next
    case True
    show ?thesis
    proof (cases "device_energy_data cache d (channels d) []")
      case (Inl e)
      with True Cons.prems show ?thesis by simp
    next
      case (Inr data)
      let ?t = "try_dump (monthly_energy_file_path d) (json_of_energy_data data)
                 ''Saved adjusted energy data for device %s''
                 ''Failed to save adjusted energy data: %s''"
      have "cached_monthly_energy_data (?t s) = cache" "cached_monthly_energy_data (?t s') = cache"
        using Cons.prems by simp_all
      from Cons.IH[OF this] have "fst (save_device_reset_from ds (?t s)) =
                                  fst (save_device_reset_from ds (?t s'))" .
      with True Inr Cons.prems show ?thesis by simp
    qed
  qed
qed

text \<open>The daily job.\<close>

lemma save_daily_energy_from_keeps:
  "open_w s q = OpenFails \<Longrightarrow> files (snd (save_daily_energy_from u ds s)) q = files s q"
  by (induction ds arbitrary: s) (simp_all add: try_dump_keeps split: sum.splits)

lemma save_daily_energy_from_log_mono:
  "set (logged s) \<subseteq> set (logged (snd (save_daily_energy_from u ds s)))"
proof (induction ds arbitrary: s)
  case Nil
  show ?case by simp
next
  case (Cons d ds)
  show ?case
  proof (cases "is_electricity d")
    case False
    with Cons[of s] show ?thesis by simp
  next
    case True
    show ?thesis
    proof (cases "daily_energy_data (cached_monthly_energy_data s) u d (channels d)")
      case (Inl e)
      with True show ?thesis by simp
    next
      case (Inr data)
      let ?s1 = "try_dump (daily_energy_file_path d) (json_of_energy_data data)
                 ''Updated daily energy file for device %s''
                 ''Failed to update daily energy file: %s'' s"
      have "set (logged s) \<subseteq> set (logged ?s1)" by (rule try_dump_log_mono)
      also have "\<dots> \<subseteq> set (logged (snd (save_daily_energy_from u ds ?s1)))" by (rule Cons)
      finally show ?thesis using True Inr by simp
    qed
  qed
qed

lemma save_daily_energy_from_logs_failure:
  assumes "fst (save_daily_energy_from u ds s) = None" and "d \<in> set ds" and "is_electricity d"
    and "open_w s (daily_energy_file_path d) \<noteq> WriteOk"
  shows "(Error, ''Failed to update daily energy file: %s'')
           \<in> set (logged (snd (save_daily_energy_from u ds s)))"
  using assms(1,2,4)
proof (induction ds arbitrary: s)
  case Nil
  then show ?case by simp
next
  case (Cons x xs)
  show ?case
  proof (cases "x = d")
    case True
    with assms(3) Cons.prems(1) obtain data where
      data: "daily_energy_data (cached_monthly_energy_data s) u d (channels d) = Inr data"
      by (auto split: sum.splits)
    let ?s1 = "try_dump (daily_energy_file_path d) (json_of_energy_data data)
                 ''Updated daily energy file for device %s''
                 ''Failed to update daily energy file: %s'' s"
    have "(Error, ''Failed to update daily energy file: %s'') \<in> set (logged ?s1)"
      using Cons.prems(3) by (rule try_dump_logs_failure)
    with save_daily_energy_from_log_mono[of ?s1 u xs] True assms(3) data
    show ?thesis by auto
  next
    case False
    with Cons.prems have d: "d \<in> set xs" by simp
    show ?thesis
    proof (cases "is_electricity x")
      case True
      with Cons.prems(1) obtain data where
        data: "daily_energy_data (cached_monthly_energy_data s) u x (channels x) = Inr data"
        by (auto split: sum.splits)
      let ?s1 = "try_dump (daily_energy_file_path x) (json_of_energy_data data)
                 ''Updated daily energy file for device %s''
                 ''Failed to update daily energy file: %s'' s"
      from Cons.prems(1) True data have "fst (save_daily_energy_from u xs ?s1) = None" by simp
      from Cons.IH[OF this d] Cons.prems(3) True data show ?thesis by simp
    next
      case F: False
      with Cons.prems(1) have "fst (save_daily_energy_from u xs s) = None" by simp
      from Cons.IH[OF this d] Cons.prems(3) F show ?thesis by simp
    qed
  qed
qed

lemma save_daily_energy_from_raises_same:
  "cached_monthly_energy_data s = cache \<Longrightarrow> cached_monthly_energy_data s' = cache \<Longrightarrow>
   fst (save_daily_energy_from u ds s) = fst (save_daily_energy_from u ds s')"
proof (induction ds arbitrary: s s')
  case Nil
  show ?case by simp
next
  case (Cons d ds)
  show ?case
  proof (cases "is_electricity d")
    case False
    with Cons.IH[OF Cons.prems] show ?thesis by simp
  next
    case True
    show ?thesis
    proof (cases "daily_energy_data cache u d (channels d)")
      case (Inl e)
      with True Cons.prems show ?thesis by simp
    next
      case (Inr data)
      let ?t = "try_dump (daily_energy_file_path d) (json_of_energy_data data)
                 ''Updated daily energy file for device %s''
                 ''Failed to update daily energy file: %s''"
      have "cached_monthly_energy_data (?t s) = cache" "cached_monthly_energy_data (?t s') = cache"
        using Cons.prems by simp_all
      from Cons.IH[OF this] have "fst (save_daily_energy_from u ds (?t s)) =
                                  fst (save_daily_energy_from u ds (?t s'))" .
      with True Inr Cons.prems show ?thesis by simp
    qed
  qed
qed

lemma save_user_reset_keeps:
  "open_w s q = OpenFails \<Longrightarrow> files (snd (save_user_reset s)) q = files s q"
  using fold_dump_keeps [of s q monthly_energy_file_path
        "\<lambda>d. json_of_energy_data (user_energy_data d)" _ _ "coordinators s"]
  by (simp add: save_user_reset_def save_user_reset_device_eq)

lemma save_user_reset_logs_failure:
  assumes "d \<in> set (coordinators s)" and "is_electricity d"
    and "open_w s (monthly_energy_file_path d) \<noteq> WriteOk"
  shows "(Error, ''Failed to save monthly energy data: %s'')
           \<in> set (logged (snd (save_user_reset s)))"
  using fold_dump_logs_failure [of d "coordinators s" s monthly_energy_file_path
        "''Failed to save monthly energy data: %s''"
        "\<lambda>d. json_of_energy_data (user_energy_data d)"
        "''Saved monthly energy data (inverted) for device %s''", OF assms]
  by (simp add: save_user_reset_def save_user_reset_device_eq)

text \<open>
  Claim C8, as the code has it.  A failing write is caught and logged and raises nothing:
  \<open>save_user_reset\<close> never raises, and whether \<open>save_device_reset\<close> or
  \<open>save_daily_energy\<close> raises does not depend on how the writes go; a job that returns has
  logged its failure message for every electricity device whose write failed.  The user
  and the device job leave both caches unchanged.  A file whose \<open>open(path, "w")\<close> fails
  is left as it was by all three jobs.
\<close>

theorem write_failure_contained:
  "fst (save_user_reset s) = None
   \<and> fst (save_device_reset (s\<lparr>open_w := w\<rparr>)) = fst (save_device_reset s)
   \<and> fst (save_daily_energy u (s\<lparr>open_w := w\<rparr>)) = fst (save_daily_energy u s)
   \<and> cached_monthly_energy_data (snd (save_user_reset s)) = cached_monthly_energy_data s
   \<and> cached_daily_energy_data (snd (save_user_reset s)) = cached_daily_energy_data s
   \<and> cached_monthly_energy_data (snd (save_device_reset s)) = cached_monthly_energy_data s
   \<and> cached_daily_energy_data (snd (save_device_reset s)) = cached_daily_energy_data s
   \<and> (\<forall>p. open_w s p = OpenFails \<longrightarrow>
          files (snd (save_user_reset s)) p = files s p
          \<and> files (snd (save_device_reset s)) p = files s p
          \<and> files (snd (save_daily_energy u s)) p = files s p)
   \<and> (\<forall>d\<in>set (coordinators s). is_electricity d \<longrightarrow>
          (open_w s (monthly_energy_file_path d) \<noteq> WriteOk \<longrightarrow>
             (Error, ''Failed to save monthly energy data: %s'')
               \<in> set (logged (snd (save_user_reset s))))
          \<and> (open_w s (monthly_energy_file_path d) \<noteq> WriteOk
               \<and> fst (save_device_reset s) = None \<longrightarrow>
             (Error, ''Failed to save adjusted energy data: %s'')
               \<in> set (logged (snd (save_device_reset s))))
          \<and> (open_w s (daily_energy_file_path d) \<noteq> WriteOk
               \<and> fst (save_daily_energy u s) = None \<longrightarrow>
             (Error, ''Failed to update daily energy file: %s'')
               \<in> set (logged (snd (save_daily_energy u s)))))"
proof -
  have 1: "fst (save_user_reset s) = None" by (simp add: save_user_reset_def)
  have 2: "fst (save_device_reset (s\<lparr>open_w := w\<rparr>)) = fst (save_device_reset s)"
    using save_device_reset_from_raises_same
            [of "s\<lparr>open_w := w\<rparr>" "cached_monthly_energy_data s" s "coordinators s"]
    by (simp add: save_device_reset_def)
  have 3: "fst (save_daily_energy u (s\<lparr>open_w := w\<rparr>)) = fst (save_daily_energy u s)"
    using save_daily_energy_from_raises_same
            [of "s\<lparr>open_w := w\<rparr>" "cached_monthly_energy_data s" s u "coordinators s"]
    by (simp add: save_daily_energy_def)
  have 4: "cached_monthly_energy_data (snd (save_user_reset s)) = cached_monthly_energy_data s"
          "cached_daily_energy_data (snd (save_user_reset s)) = cached_daily_energy_data s"
    using save_user_reset_frame[of s] by simp_all
  have 5: "cached_monthly_energy_data (snd (save_device_reset s)) = cached_monthly_energy_data s"
          "cached_daily_energy_data (snd (save_device_reset s)) = cached_daily_energy_data s"
    using save_device_reset_from_frame[of "coordinators s" s]
    by (simp_all add: save_device_reset_def)
  have 6: "\<forall>p. open_w s p = OpenFails \<longrightarrow>
          files (snd (save_user_reset s)) p = files s p
          \<and> files (snd (save_device_reset s)) p = files s p
          \<and> files (snd (save_daily_energy u s)) p = files s p"
    by (simp add: save_user_reset_keeps save_device_reset_from_keeps
          save_daily_energy_from_keeps save_device_reset_def save_daily_energy_def)
  have 7: "\<forall>d\<in>set (coordinators s). is_electricity d \<longrightarrow>
          (open_w s (monthly_energy_file_path d) \<noteq> WriteOk \<longrightarrow>
             (Error, ''Failed to save monthly energy data: %s'')
               \<in> set (logged (snd (save_user_reset s))))
          \<and> (open_w s (monthly_energy_file_path d) \<noteq> WriteOk
               \<and> fst (save_device_reset s) = None \<longrightarrow>
             (Error, ''Failed to save adjusted energy data: %s'')
               \<in> set (logged (snd (save_device_reset s))))
          \<and> (open_w s (daily_energy_file_path d) \<noteq> WriteOk
               \<and> fst (save_daily_energy u s) = None \<longrightarrow>
             (Error, ''Failed to update daily energy file: %s'')
               \<in> set (logged (snd (save_daily_energy u s))))"
    using save_user_reset_logs_failure[of _ s]
      save_device_reset_from_logs_failure[of "coordinators s" s]
      save_daily_energy_from_logs_failure[of u "coordinators s" s]
    by (simp add: save_device_reset_def save_daily_energy_def)
  from 1 2 3 4 5 6 7 show ?thesis by blast
qed

text \<open>
  With every \<open>open(path, "w")\<close> refused, the jobs return, the monthly file and the cache
  still hold \<open>-200\<close>, and the failures are in the log.
\<close>

theorem write_failure_contained_witness:
  "fst (save_user_reset ex_open_fails) = None
   \<and> files (snd (save_user_reset ex_open_fails)) ''/config/em06_monthly_energy.json'' =
       Holds (JObj [(''1'', JNum (- 200))])
   \<and> cached_monthly_energy_data (snd (save_user_reset ex_open_fails)) =
       JObj [(''1'', JNum (- 200))]
   \<and> (Error, ''Failed to save monthly energy data: %s'')
       \<in> set (logged (snd (save_user_reset ex_open_fails)))
   \<and> (Error, ''Failed to save adjusted energy data: %s'')
       \<in> set (logged (snd (save_device_reset ex_open_fails)))"
proof -
  note main = write_failure_contained [of ex_open_fails "\<lambda>p. WriteOk" 24]
  have f: "files ex_open_fails ''/config/em06_monthly_energy.json'' =
             Holds (JObj [(''1'', JNum (- 200))])"
    and o: "open_w ex_open_fails ''/config/em06_monthly_energy.json'' = OpenFails"
    and c: "cached_monthly_energy_data ex_open_fails = JObj [(''1'', JNum (- 200))]"
    and d: "ex_device \<in> set (coordinators ex_open_fails)" "is_electricity ex_device"
    and p: "monthly_energy_file_path ex_device = ''/config/em06_monthly_energy.json''"
    by (simp_all add: ex_open_fails_def ex_state_def ex_device_def monthly_energy_file_path_def)
  have r: "fst (save_device_reset ex_open_fails) = None"
    by (simp add: save_device_reset_def ex_open_fails_def ex_state_def ex_device_def
          value_or_0_def py_add_def str_int_1 str_int_2)
  from main have 1: "fst (save_user_reset ex_open_fails) = None" by blast
  from main o f have 2: "files (snd (save_user_reset ex_open_fails))
       ''/config/em06_monthly_energy.json'' = Holds (JObj [(''1'', JNum (- 200))])"
    by metis
  from main c have 3: "cached_monthly_energy_data (snd (save_user_reset ex_open_fails)) =
       JObj [(''1'', JNum (- 200))]" by simp
  from main d o p have 4: "(Error, ''Failed to save monthly energy data: %s'')
       \<in> set (logged (snd (save_user_reset ex_open_fails)))"
    by (metis write_outcome.distinct(1))
  from main d o p r have 5: "(Error, ''Failed to save adjusted energy data: %s'')
       \<in> set (logged (snd (save_device_reset ex_open_fails)))"
    by (metis write_outcome.distinct(1))
  from 1 2 3 4 5 show ?thesis by simp
qed

text \<open>
  Claim C8 as stated fails where the write fails after the file was opened:
  \<open>open(path, "w")\<close> has truncated the file by then, and the previously persisted
  mapping is gone although the job returns normally.
\<close>

theorem write_failure_truncates:
  "open_w ex_write_fails ''/config/em06_monthly_energy.json'' = WriteFails
   \<and> files ex_write_fails ''/config/em06_monthly_energy.json'' =
       Holds (JObj [(''1'', JNum (- 200))])
   \<and> fst (save_user_reset ex_write_fails) = None
   \<and> files (snd (save_user_reset ex_write_fails)) ''/config/em06_monthly_energy.json'' =
       Malformed
   \<and> files (snd (save_user_reset ex_write_fails)) ''/config/em06_monthly_energy.json'' \<noteq>
       files ex_write_fails ''/config/em06_monthly_energy.json''"
  by (simp add: save_user_reset_def save_user_reset_device_def ex_write_fails_def
        ex_open_fails_def ex_state_def ex_device_def try_dump_def dump_file_def log_msg_def
        monthly_energy_file_path_def)

section \<open>Loading a file that cannot be used\<close>

lemma zero_defaults_lookup:
  "map_of (zero_defaults cs) (str_int c) = (if c \<in> set cs then Some (JNum 0) else None)"
  by (simp add: zero_defaults_def map_of_fold_update_str)

lemma zero_defaults_keys: "fst ` set (zero_defaults cs) = str_int ` set cs"
  using keys_fold_update[of str_int "\<lambda>c. JNum 0" cs "[]"] by (simp add: zero_defaults_def)

lemma load_energy_data_fallback:
  assumes "files s (monthly_energy_file_path (sensor_device sn)) \<in> {Missing, Unreadable, Malformed}"
  shows "fst (load_energy_data sn s) = None
     \<and> cached_monthly_energy_data (snd (load_energy_data sn s)) =
         JObj (zero_defaults (channels (sensor_device sn)))
     \<and> (Error, ''Failed to read energy data file. Using default values.'')
         \<in> set (logged (snd (load_energy_data sn s)))"
  using assms by (auto simp: load_energy_data_def log_msg_def)

lemma load_daily_energy_data_fallback:
  assumes "files s (daily_energy_file_path (sensor_device sn)) \<in> {Missing, Unreadable, Malformed}"
  shows "fst (load_daily_energy_data sn s) = None
     \<and> cached_daily_energy_data (snd (load_daily_energy_data sn s)) =
         JObj (zero_defaults (channels (sensor_device sn)))
     \<and> (Error, ''Failed to read daily energy data file. Using default values.'')
         \<in> set (logged (snd (load_daily_energy_data sn s)))"
  using assms by (auto simp: load_daily_energy_data_def log_msg_def)

text \<open>
  Claim C5 says that a load from a missing, unreadable or malformed file installs the
  all-zero mapping and never raises.  That is what the two lemmas above show for a file
  that is missing, that cannot be opened, or whose text is not JSON.  It fails for a file
  whose bytes are not UTF-8: reading it raises \<open>UnicodeDecodeError\<close>, which is neither
  \<open>IOError\<close> nor \<open>JSONDecodeError\<close>, so both loads raise to their caller and the cache
  keeps what it held instead of the zero mapping.
\<close>

theorem load_undecodable_raises:
  "files ex_undecodable (monthly_energy_file_path (sensor_device (ex_sensor 1 4))) = Undecodable
   \<and> load_energy_data (ex_sensor 1 4) ex_undecodable = (Some UnicodeDecodeError, ex_undecodable)
   \<and> load_daily_energy_data (ex_sensor 1 4) ex_undecodable =
       (Some UnicodeDecodeError, ex_undecodable)
   \<and> cached_monthly_energy_data ex_undecodable = JObj [(''1'', JNum (- 200))]
   \<and> zero_defaults (channels (sensor_device (ex_sensor 1 4))) =
       [(''1'', JNum 0), (''2'', JNum 0)]"
  by (simp add: load_energy_data_def load_daily_energy_data_def ex_undecodable_def
        ex_state_def ex_sensor_def ex_device_def monthly_energy_file_path_def
        daily_energy_file_path_def zero_defaults_def str_int_1 str_int_2)

section \<open>The daily reset\<close>

lemma daily_energy_data_nonempty:
  "cs \<noteq> [] \<Longrightarrow> \<exists>e. daily_energy_data cache u d cs = Inl e"
  by (cases cs) (auto simp: Let_def split: sum.splits)

lemma daily_energy_data_NameError:
  assumes "offset_mapping cache" and "cs \<noteq> []"
  shows "daily_energy_data cache u d cs = Inl NameError"
proof -
  from assms(2) obtain c cs' where cs: "cs = c # cs'" by (cases cs) auto
  from py_get_offset[OF assms(1), of c] obtain v where
    "py_get cache (str_int c) (JNum 0) = Inr v" "as_number v = Some (offset_at cache c)" by blast
  with cs show ?thesis by (simp add: py_add_def)
qed

lemma save_daily_energy_from_raises:
  assumes "d \<in> set ds" and "is_electricity d" and "channels d \<noteq> []"
  shows "fst (save_daily_energy_from u ds s) \<noteq> None"
  using assms(1)
proof (induction ds arbitrary: s)
  case Nil
  then show ?case by simp
next
  case (Cons x xs)
  show ?case
  proof (cases "x = d")
    case True
    from daily_energy_data_nonempty[OF assms(3)] obtain e where
      "daily_energy_data (cached_monthly_energy_data s) u d (channels d) = Inl e" by blast
    with True assms(2) show ?thesis by simp
  next
    case False
    with Cons.prems have "d \<in> set xs" by simp
    from Cons.IH[OF this] show ?thesis by (simp split: sum.splits)
  qed
qed

text \<open>
  Claim C4 says that after the daily reset \<open>this_day_energy\<close> reads 0 for every channel,
  and that on the user's reset day the daily offsets are 0.  The job does neither: as
  soon as an electricity device has a channel, the loop raises (\<open>NameError\<close> at
  \<open>now.day\<close>) before anything is stored.  At the example state the job stops with
  \<open>NameError\<close> and leaves the state as it was, whatever the day: the day sensor of
  channel 1 still reads 4500, the daily offset is still 300 and no daily file is written.
\<close>

theorem daily_reset_raises:
  "save_daily_energy 24 ex_state = (Some NameError, ex_state)
   \<and> native_value (ex_sensor 1 5) (snd (save_daily_energy 24 ex_state)) = Inr 4500
   \<and> cached_daily_energy_data (snd (save_daily_energy 24 ex_state)) = JObj [(''1'', JNum 300)]
   \<and> files (snd (save_daily_energy 24 ex_state)) ''/config/em06_daily_energy.json'' = Missing"
proof -
  have j: "save_daily_energy 24 ex_state = (Some NameError, ex_state)"
    by (simp add: save_daily_energy_def ex_state_def ex_device_def value_or_0_def py_add_def
          str_int_1)
  have v: "native_value (ex_sensor 1 5) ex_state = Inr 4500"
    by (simp add: native_value_def ex_sensor_def ex_state_def SENSORS_EM_def ex_device_def
          value_or_0_def py_add_def py_sub_def str_int_1)
  show ?thesis unfolding j using v by (simp add: ex_state_def)
qed

section \<open>The next target time\<close>

lemma days_in_month_bounds: "28 \<le> days_in_month y m \<and> days_in_month y m \<le> 31"
  by (simp add: days_in_month_def)

lemma target_valid:
  assumes "valid_datetime now"
  shows "valid_datetime (now\<lparr>day := d, hour := 0, minute := 0, second := 0\<rparr>)
           \<longleftrightarrow> day_exists (year now) (month now) d"
  using assms by (auto simp: valid_datetime_def day_exists_def)

lemma target_passed:
  assumes "valid_datetime now"
  shows "dt_less (now\<lparr>day := d, hour := 0, minute := 0, second := 0\<rparr>) now
           \<longleftrightarrow> already_passed d now"
  using assms by (auto simp: valid_datetime_def dt_less_def already_passed_def)

lemma following_eq:
  assumes "valid_datetime now"
  shows "month now mod 12 + 1 = following_month now"
    and "year now + (if month now = 12 then 1 else 0) = following_year now"
  using assms by (auto simp: valid_datetime_def following_month_def following_year_def)

lemma rolled_valid:
  assumes "valid_datetime now"
  shows "valid_datetime (now\<lparr>day := d, hour := 0, minute := 0, second := 0,
            month := following_month now, year := following_year now\<rparr>)
         \<longleftrightarrow> day_exists (following_year now) (following_month now) d
               \<and> following_year now \<le> 9999"
  using assms
  by (auto simp: valid_datetime_def day_exists_def following_month_def following_year_def)

lemma schedule_user_reset_cases:
  assumes "valid_datetime now"
  shows "schedule_user_reset d now =
     (if \<not> day_exists (year now) (month now) d then Inl ValueError
      else if \<not> already_passed d now
        then Inr (now\<lparr>day := d, hour := 0, minute := 0, second := 0\<rparr>)
      else if day_exists (following_year now) (following_month now) d
              \<and> following_year now \<le> 9999
        then Inr (now\<lparr>day := d, hour := 0, minute := 0, second := 0,
                     month := following_month now, year := following_year now\<rparr>)
      else Inl ValueError)"
  using target_valid[OF assms, of d] target_passed[OF assms, of d] rolled_valid[OF assms, of d]
  by (simp add: schedule_user_reset_def checked_def following_eq[OF assms])

lemma schedule_device_reset_cases:
  assumes "valid_datetime now"
  shows "schedule_device_reset d now =
     (if \<not> day_exists (year now) (month now) d then Inl ValueError
      else if \<not> already_passed d now
        then minus_one_second (now\<lparr>day := d, hour := 0, minute := 0, second := 0\<rparr>)
      else if day_exists (following_year now) (following_month now) d
              \<and> following_year now \<le> 9999
        then minus_one_second (now\<lparr>day := d, hour := 0, minute := 0, second := 0,
                     month := following_month now, year := following_year now\<rparr>)
      else Inl ValueError)"
  using target_valid[OF assms, of d] target_passed[OF assms, of d] rolled_valid[OF assms, of d]
  by (simp add: schedule_device_reset_def checked_def following_eq[OF assms])

lemma not_passed_le:
  assumes "valid_datetime now" and "\<not> already_passed d now"
  shows "dt_le now (now\<lparr>day := d, hour := 0, minute := 0, second := 0\<rparr>)"
  using target_passed[OF assms(1), of d] assms(2) by (simp add: dt_le_def)

lemma rolled_after:
  assumes "valid_datetime now"
  shows "dt_less now (now\<lparr>day := d, hour := 0, minute := 0, second := 0,
            month := following_month now, year := following_year now\<rparr>)"
  using assms
  by (auto simp: valid_datetime_def dt_less_def following_month_def following_year_def)

lemma device_not_passed:
  assumes "valid_datetime now" and "\<not> already_passed d now" and "day now \<noteq> d"
  shows "minus_one_second (now\<lparr>day := d, hour := 0, minute := 0, second := 0\<rparr>) =
           Inr (now\<lparr>day := d - 1, hour := 23, minute := 59, second := 59\<rparr>)
       \<and> dt_le now (now\<lparr>day := d - 1, hour := 23, minute := 59, second := 59\<rparr>)"
proof -
  from assms have lt: "day now < d" by (auto simp: already_passed_def)
  with assms(1) have "1 < d" by (simp add: valid_datetime_def)
  then have 1: "minus_one_second (now\<lparr>day := d, hour := 0, minute := 0, second := 0\<rparr>) =
           Inr (now\<lparr>day := d - 1, hour := 23, minute := 59, second := 59\<rparr>)"
    by (simp add: minus_one_second_def)
  have 2: "dt_le now (now\<lparr>day := d - 1, hour := 23, minute := 59, second := 59\<rparr>)"
    using assms(1) lt by (auto simp: dt_le_def dt_less_def valid_datetime_def)
  from 1 2 show ?thesis by simp
qed

lemma device_rolled_later_day:
  assumes "valid_datetime now" and "1 < d"
  shows "minus_one_second (now\<lparr>day := d, hour := 0, minute := 0, second := 0,
            month := following_month now, year := following_year now\<rparr>) =
           Inr (now\<lparr>day := d - 1, hour := 23, minute := 59, second := 59,
                  month := following_month now, year := following_year now\<rparr>)
       \<and> dt_le now (now\<lparr>day := d - 1, hour := 23, minute := 59, second := 59,
                  month := following_month now, year := following_year now\<rparr>)"
proof -
  have 1: "minus_one_second (now\<lparr>day := d, hour := 0, minute := 0, second := 0,
            month := following_month now, year := following_year now\<rparr>) =
           Inr (now\<lparr>day := d - 1, hour := 23, minute := 59, second := 59,
                  month := following_month now, year := following_year now\<rparr>)"
    using assms(2) by (simp add: minus_one_second_def)
  have 2: "dt_le now (now\<lparr>day := d - 1, hour := 23, minute := 59, second := 59,
                  month := following_month now, year := following_year now\<rparr>)"
    using assms(1)
    by (auto simp: dt_le_def dt_less_def valid_datetime_def following_month_def
          following_year_def)
  from 1 2 show ?thesis by simp
qed

lemma device_rolled_first_day:
  assumes "valid_datetime now"
  shows "minus_one_second (now\<lparr>day := 1, hour := 0, minute := 0, second := 0,
            month := following_month now, year := following_year now\<rparr>) =
           Inr (now\<lparr>day := days_in_month (year now) (month now),
                  hour := 23, minute := 59, second := 59\<rparr>)
       \<and> dt_le now (now\<lparr>day := days_in_month (year now) (month now),
                  hour := 23, minute := 59, second := 59\<rparr>)"
proof -
  have 1: "minus_one_second (now\<lparr>day := 1, hour := 0, minute := 0, second := 0,
            month := following_month now, year := following_year now\<rparr>) =
           Inr (now\<lparr>day := days_in_month (year now) (month now),
                  hour := 23, minute := 59, second := 59\<rparr>)"
  proof (cases "month now = 12")
    case True
    with assms show ?thesis
      by (simp add: minus_one_second_def following_month_def following_year_def
            valid_datetime_def days_in_month_def)
  next
    case False
    with assms show ?thesis
      by (simp add: minus_one_second_def following_month_def following_year_def
            valid_datetime_def)
  qed
  have 2: "dt_le now (now\<lparr>day := days_in_month (year now) (month now),
                  hour := 23, minute := 59, second := 59\<rparr>)"
    using assms by (auto simp: dt_le_def dt_less_def valid_datetime_def)
  from 1 2 show ?thesis by simp
qed

lemma not_passed_on_day:
  assumes "valid_datetime now" and "\<not> already_passed d now" and "day now = d"
  shows "hour now = 0 \<and> minute now = 0 \<and> second now = 0"
  using assms by (auto simp: valid_datetime_def already_passed_def)

lemma not_passed_day_le:
  assumes "valid_datetime now" and "\<not> already_passed d now"
  shows "day now \<le> d \<and> 1 \<le> d"
  using assms by (auto simp: valid_datetime_def already_passed_def)

lemma device_target_later_day:
  assumes "valid_datetime now" and "\<not> already_passed d now" and "1 < d"
  shows "minus_one_second (now\<lparr>day := d, hour := 0, minute := 0, second := 0\<rparr>) =
           Inr (now\<lparr>day := d - 1, hour := 23, minute := 59, second := 59\<rparr>)
       \<and> (day now \<noteq> d \<longrightarrow>
            dt_le now (now\<lparr>day := d - 1, hour := 23, minute := 59, second := 59\<rparr>))
       \<and> (day now = d \<longrightarrow>
            dt_less (now\<lparr>day := d - 1, hour := 23, minute := 59, second := 59\<rparr>) now)"
proof -
  have 1: "minus_one_second (now\<lparr>day := d, hour := 0, minute := 0, second := 0\<rparr>) =
           Inr (now\<lparr>day := d - 1, hour := 23, minute := 59, second := 59\<rparr>)"
    using assms(3) by (simp add: minus_one_second_def)
  have 2: "day now \<noteq> d \<longrightarrow>
            dt_le now (now\<lparr>day := d - 1, hour := 23, minute := 59, second := 59\<rparr>)"
    using device_not_passed[OF assms(1,2)] by simp
  have 3: "day now = d \<longrightarrow>
            dt_less (now\<lparr>day := d - 1, hour := 23, minute := 59, second := 59\<rparr>) now"
    by (simp add: dt_less_def)
  from 1 2 3 show ?thesis by simp
qed

lemma device_target_first_day:
  assumes "valid_datetime now"
  shows "(1 < month now \<longrightarrow>
           minus_one_second (now\<lparr>day := 1, hour := 0, minute := 0, second := 0\<rparr>) =
             Inr (now\<lparr>month := month now - 1,
                    day := days_in_month (year now) (month now - 1),
                    hour := 23, minute := 59, second := 59\<rparr>)
           \<and> dt_less (now\<lparr>month := month now - 1,
                    day := days_in_month (year now) (month now - 1),
                    hour := 23, minute := 59, second := 59\<rparr>) now)
       \<and> (month now = 1 \<and> 1 < year now \<longrightarrow>
           minus_one_second (now\<lparr>day := 1, hour := 0, minute := 0, second := 0\<rparr>) =
             Inr (now\<lparr>year := year now - 1, month := 12, day := 31,
                    hour := 23, minute := 59, second := 59\<rparr>)
           \<and> dt_less (now\<lparr>year := year now - 1, month := 12, day := 31,
                    hour := 23, minute := 59, second := 59\<rparr>) now)
       \<and> (month now = 1 \<and> year now = 1 \<longrightarrow>
           minus_one_second (now\<lparr>day := 1, hour := 0, minute := 0, second := 0\<rparr>) =
             Inl OverflowError)"
  using assms by (simp add: minus_one_second_def dt_less_def valid_datetime_def)

text \<open>
  Claim C6, as the code has it.  For a valid \<open>now\<close> and a target day \<open>d\<close>:
  if \<open>d\<close> is not a day of the current month, both schedulers raise \<open>ValueError\<close>.
  Otherwise, if day \<open>d\<close> at 00:00:00 has not passed, \<open>schedule_user_reset\<close> returns that
  instant of the current month (with \<open>now\<close>'s microsecond), which is not before \<open>now\<close>;
  \<open>schedule_device_reset\<close> returns the second before it: 23:59:59 of day \<open>d - 1\<close>, or of
  the last day of the preceding month when \<open>d = 1\<close>, or \<open>OverflowError\<close> on 1 January of
  year 1.  That second is not before \<open>now\<close> when \<open>now\<close> is on an earlier day, and it is
  before \<open>now\<close> when \<open>now\<close> is on day \<open>d\<close> itself, at 00:00:00.  If the instant has passed,
  the user's target is day \<open>d\<close> at 00:00:00 of the following month, the year one more
  after December, and it is after \<open>now\<close>; the device scheduler returns the second before
  it, which is not before \<open>now\<close>.  That needs \<open>d\<close> to be a day of the following month (and
  the year within 9999): if not, both schedulers raise \<open>ValueError\<close>.  Nothing is clamped.
\<close>

theorem schedulers_next_target:
  assumes "valid_datetime now"
  shows
  "(\<not> day_exists (year now) (month now) d \<longrightarrow>
       schedule_user_reset d now = Inl ValueError
       \<and> schedule_device_reset d now = Inl ValueError)
   \<and> (day_exists (year now) (month now) d \<and> \<not> already_passed d now \<longrightarrow>
       schedule_user_reset d now =
         Inr (now\<lparr>day := d, hour := 0, minute := 0, second := 0\<rparr>)
       \<and> dt_le now (now\<lparr>day := d, hour := 0, minute := 0, second := 0\<rparr>)
       \<and> (day now = d \<longrightarrow> at_midnight now)
       \<and> (day now \<noteq> d \<longrightarrow> 1 < d)
       \<and> (1 < d \<longrightarrow>
            schedule_device_reset d now =
              Inr (now\<lparr>day := d - 1, hour := 23, minute := 59, second := 59\<rparr>)
            \<and> (day now \<noteq> d \<longrightarrow>
                 dt_le now (now\<lparr>day := d - 1, hour := 23, minute := 59, second := 59\<rparr>))
            \<and> (day now = d \<longrightarrow>
                 dt_less (now\<lparr>day := d - 1, hour := 23, minute := 59, second := 59\<rparr>) now))
       \<and> (d = 1 \<and> 1 < month now \<longrightarrow>
            schedule_device_reset d now =
              Inr (now\<lparr>month := month now - 1,
                     day := days_in_month (year now) (month now - 1),
                     hour := 23, minute := 59, second := 59\<rparr>)
            \<and> dt_less (now\<lparr>month := month now - 1,
                     day := days_in_month (year now) (month now - 1),
                     hour := 23, minute := 59, second := 59\<rparr>) now)
       \<and> (d = 1 \<and> month now = 1 \<and> 1 < year now \<longrightarrow>
            schedule_device_reset d now =
              Inr (now\<lparr>year := year now - 1, month := 12, day := 31,
                     hour := 23, minute := 59, second := 59\<rparr>)
            \<and> dt_less (now\<lparr>year := year now - 1, month := 12, day := 31,
                     hour := 23, minute := 59, second := 59\<rparr>) now)
       \<and> (d = 1 \<and> month now = 1 \<and> year now = 1 \<longrightarrow>
            schedule_device_reset d now = Inl OverflowError))
   \<and> (day_exists (year now) (month now) d \<and> already_passed d now
        \<and> day_exists (following_year now) (following_month now) d
        \<and> following_year now \<le> 9999 \<longrightarrow>
       schedule_user_reset d now =
         Inr (now\<lparr>day := d, hour := 0, minute := 0, second := 0,
                month := following_month now, year := following_year now\<rparr>)
       \<and> dt_less now (now\<lparr>day := d, hour := 0, minute := 0, second := 0,
                month := following_month now, year := following_year now\<rparr>)
       \<and> (1 < d \<longrightarrow>
            schedule_device_reset d now =
              Inr (now\<lparr>day := d - 1, hour := 23, minute := 59, second := 59,
                     month := following_month now, year := following_year now\<rparr>)
            \<and> dt_le now (now\<lparr>day := d - 1, hour := 23, minute := 59, second := 59,
                     month := following_month now, year := following_year now\<rparr>))
       \<and> (d = 1 \<longrightarrow>
            schedule_device_reset d now =
              Inr (now\<lparr>day := days_in_month (year now) (month now),
                     hour := 23, minute := 59, second := 59\<rparr>)
            \<and> dt_le now (now\<lparr>day := days_in_month (year now) (month now),
                     hour := 23, minute := 59, second := 59\<rparr>)))
   \<and> (day_exists (year now) (month now) d \<and> already_passed d now
        \<and> \<not> (day_exists (following_year now) (following_month now) d
               \<and> following_year now \<le> 9999) \<longrightarrow>
       schedule_user_reset d now = Inl ValueError
       \<and> schedule_device_reset d now = Inl ValueError)"
proof -
  note u = schedule_user_reset_cases[OF assms, of d]
  note v = schedule_device_reset_cases[OF assms, of d]
  have A: "\<not> day_exists (year now) (month now) d \<longrightarrow>
       schedule_user_reset d now = Inl ValueError
       \<and> schedule_device_reset d now = Inl ValueError"
    using u v by simp
  have B: "day_exists (year now) (month now) d \<and> \<not> already_passed d now \<longrightarrow>
       schedule_user_reset d now =
         Inr (now\<lparr>day := d, hour := 0, minute := 0, second := 0\<rparr>)
       \<and> dt_le now (now\<lparr>day := d, hour := 0, minute := 0, second := 0\<rparr>)
       \<and> (day now = d \<longrightarrow> at_midnight now)
       \<and> (day now \<noteq> d \<longrightarrow> 1 < d)
       \<and> (1 < d \<longrightarrow>
            schedule_device_reset d now =
              Inr (now\<lparr>day := d - 1, hour := 23, minute := 59, second := 59\<rparr>)
            \<and> (day now \<noteq> d \<longrightarrow>
                 dt_le now (now\<lparr>day := d - 1, hour := 23, minute := 59, second := 59\<rparr>))
            \<and> (day now = d \<longrightarrow>
                 dt_less (now\<lparr>day := d - 1, hour := 23, minute := 59, second := 59\<rparr>) now))
       \<and> (d = 1 \<and> 1 < month now \<longrightarrow>
            schedule_device_reset d now =
              Inr (now\<lparr>month := month now - 1,
                     day := days_in_month (year now) (month now - 1),
                     hour := 23, minute := 59, second := 59\<rparr>)
            \<and> dt_less (now\<lparr>month := month now - 1,
                     day := days_in_month (year now) (month now - 1),
                     hour := 23, minute := 59, second := 59\<rparr>) now)
       \<and> (d = 1 \<and> month now = 1 \<and> 1 < year now \<longrightarrow>
            schedule_device_reset d now =
              Inr (now\<lparr>year := year now - 1, month := 12, day := 31,
                     hour := 23, minute := 59, second := 59\<rparr>)
            \<and> dt_less (now\<lparr>year := year now - 1, month := 12, day := 31,
                     hour := 23, minute := 59, second := 59\<rparr>) now)
       \<and> (d = 1 \<and> month now = 1 \<and> year now = 1 \<longrightarrow>
            schedule_device_reset d now = Inl OverflowError)"
  proof (intro impI)
    assume h: "day_exists (year now) (month now) d \<and> \<not> already_passed d now"
    then have np: "\<not> already_passed d now" and de: "day_exists (year now) (month now) d"
      by simp_all
    from u h have 1: "schedule_user_reset d now =
         Inr (now\<lparr>day := d, hour := 0, minute := 0, second := 0\<rparr>)" by simp
    from v h have dv: "schedule_device_reset d now =
         minus_one_second (now\<lparr>day := d, hour := 0, minute := 0, second := 0\<rparr>)" by simp
    note 2 = not_passed_le[OF assms np]
    have 3: "day now = d \<longrightarrow> at_midnight now"
      using not_passed_on_day[OF assms np] by (simp add: at_midnight_def)
    have 4: "day now \<noteq> d \<longrightarrow> 1 < d"
      using not_passed_day_le[OF assms np] assms by (auto simp: valid_datetime_def)
    have 5: "1 < d \<longrightarrow>
            schedule_device_reset d now =
              Inr (now\<lparr>day := d - 1, hour := 23, minute := 59, second := 59\<rparr>)
            \<and> (day now \<noteq> d \<longrightarrow>
                 dt_le now (now\<lparr>day := d - 1, hour := 23, minute := 59, second := 59\<rparr>))
            \<and> (day now = d \<longrightarrow>
                 dt_less (now\<lparr>day := d - 1, hour := 23, minute := 59, second := 59\<rparr>) now)"
      using device_target_later_day[OF assms np] dv by simp
    have 6: "(d = 1 \<and> 1 < month now \<longrightarrow>
            schedule_device_reset d now =
              Inr (now\<lparr>month := month now - 1,
                     day := days_in_month (year now) (month now - 1),
                     hour := 23, minute := 59, second := 59\<rparr>)
            \<and> dt_less (now\<lparr>month := month now - 1,
                     day := days_in_month (year now) (month now - 1),
                     hour := 23, minute := 59, second := 59\<rparr>) now)
       \<and> (d = 1 \<and> month now = 1 \<and> 1 < year now \<longrightarrow>
            schedule_device_reset d now =
              Inr (now\<lparr>year := year now - 1, month := 12, day := 31,
                     hour := 23, minute := 59, second := 59\<rparr>)
            \<and> dt_less (now\<lparr>year := year now - 1, month := 12, day := 31,
                     hour := 23, minute := 59, second := 59\<rparr>) now)
       \<and> (d = 1 \<and> month now = 1 \<and> year now = 1 \<longrightarrow>
            schedule_device_reset d now = Inl OverflowError)"
    proof (cases "d = 1")
      case True
      with dv have "schedule_device_reset d now =
         minus_one_second (now\<lparr>day := 1, hour := 0, minute := 0, second := 0\<rparr>)" by simp
      with device_target_first_day[OF assms] True show ?thesis by simp
    next
      case False
      then show ?thesis by simp
    qed
    from 1 2 3 4 5 6 show "schedule_user_reset d now =
         Inr (now\<lparr>day := d, hour := 0, minute := 0, second := 0\<rparr>)
       \<and> dt_le now (now\<lparr>day := d, hour := 0, minute := 0, second := 0\<rparr>)
       \<and> (day now = d \<longrightarrow> at_midnight now)
       \<and> (day now \<noteq> d \<longrightarrow> 1 < d)
       \<and> (1 < d \<longrightarrow>
            schedule_device_reset d now =
              Inr (now\<lparr>day := d - 1, hour := 23, minute := 59, second := 59\<rparr>)
            \<and> (day now \<noteq> d \<longrightarrow>
                 dt_le now (now\<lparr>day := d - 1, hour := 23, minute := 59, second := 59\<rparr>))
            \<and> (day now = d \<longrightarrow>
                 dt_less (now\<lparr>day := d - 1, hour := 23, minute := 59, second := 59\<rparr>) now))
       \<and> (d = 1 \<and> 1 < month now \<longrightarrow>
            schedule_device_reset d now =
              Inr (now\<lparr>month := month now - 1,
                     day := days_in_month (year now) (month now - 1),
                     hour := 23, minute := 59, second := 59\<rparr>)
            \<and> dt_less (now\<lparr>month := month now - 1,
                     day := days_in_month (year now) (month now - 1),
                     hour := 23, minute := 59, second := 59\<rparr>) now)
       \<and> (d = 1 \<and> month now = 1 \<and> 1 < year now \<longrightarrow>
            schedule_device_reset d now =
              Inr (now\<lparr>year := year now - 1, month := 12, day := 31,
                     hour := 23, minute := 59, second := 59\<rparr>)
            \<and> dt_less (now\<lparr>year := year now - 1, month := 12, day := 31,
                     hour := 23, minute := 59, second := 59\<rparr>) now)
       \<and> (d = 1 \<and> month now = 1 \<and> year now = 1 \<longrightarrow>
            schedule_device_reset d now = Inl OverflowError)"
      by blast
  qed
  have C: "day_exists (year now) (month now) d \<and> already_passed d now
        \<and> day_exists (following_year now) (following_month now) d
        \<and> following_year now \<le> 9999 \<longrightarrow>
       schedule_user_reset d now =
         Inr (now\<lparr>day := d, hour := 0, minute := 0, second := 0,
                month := following_month now, year := following_year now\<rparr>)
       \<and> dt_less now (now\<lparr>day := d, hour := 0, minute := 0, second := 0,
                month := following_month now, year := following_year now\<rparr>)
       \<and> (1 < d \<longrightarrow>
            schedule_device_reset d now =
              Inr (now\<lparr>day := d - 1, hour := 23, minute := 59, second := 59,
                     month := following_month now, year := following_year now\<rparr>)
            \<and> dt_le now (now\<lparr>day := d - 1, hour := 23, minute := 59, second := 59,
                     month := following_month now, year := following_year now\<rparr>))
       \<and> (d = 1 \<longrightarrow>
            schedule_device_reset d now =
              Inr (now\<lparr>day := days_in_month (year now) (month now),
                     hour := 23, minute := 59, second := 59\<rparr>)
            \<and> dt_le now (now\<lparr>day := days_in_month (year now) (month now),
                     hour := 23, minute := 59, second := 59\<rparr>))"
  proof (intro impI)
    assume h: "day_exists (year now) (month now) d \<and> already_passed d now
        \<and> day_exists (following_year now) (following_month now) d
        \<and> following_year now \<le> 9999"
    from u h have 1: "schedule_user_reset d now =
         Inr (now\<lparr>day := d, hour := 0, minute := 0, second := 0,
                month := following_month now, year := following_year now\<rparr>)" by simp
    from v h have dv: "schedule_device_reset d now =
         minus_one_second (now\<lparr>day := d, hour := 0, minute := 0, second := 0,
                month := following_month now, year := following_year now\<rparr>)" by simp
    note 2 = rolled_after[OF assms, of d]
    have 3: "1 < d \<longrightarrow>
            schedule_device_reset d now =
              Inr (now\<lparr>day := d - 1, hour := 23, minute := 59, second := 59,
                     month := following_month now, year := following_year now\<rparr>)
            \<and> dt_le now (now\<lparr>day := d - 1, hour := 23, minute := 59, second := 59,
                     month := following_month now, year := following_year now\<rparr>)"
      using device_rolled_later_day[OF assms, of d] dv by simp
    have 4: "d = 1 \<longrightarrow>
            schedule_device_reset d now =
              Inr (now\<lparr>day := days_in_month (year now) (month now),
                     hour := 23, minute := 59, second := 59\<rparr>)
            \<and> dt_le now (now\<lparr>day := days_in_month (year now) (month now),
                     hour := 23, minute := 59, second := 59\<rparr>)"
    proof (cases "d = 1")
      case True
      with dv have "schedule_device_reset d now =
         minus_one_second (now\<lparr>day := 1, hour := 0, minute := 0, second := 0,
                month := following_month now, year := following_year now\<rparr>)" by simp
      with device_rolled_first_day[OF assms] True show ?thesis by simp
    next
      case False
      then show ?thesis by simp
    qed
    from 1 2 3 4 show "schedule_user_reset d now =
         Inr (now\<lparr>day := d, hour := 0, minute := 0, second := 0,
                month := following_month now, year := following_year now\<rparr>)
       \<and> dt_less now (now\<lparr>day := d, hour := 0, minute := 0, second := 0,
                month := following_month now, year := following_year now\<rparr>)
       \<and> (1 < d \<longrightarrow>
            schedule_device_reset d now =
              Inr (now\<lparr>day := d - 1, hour := 23, minute := 59, second := 59,
                     month := following_month now, year := following_year now\<rparr>)
            \<and> dt_le now (now\<lparr>day := d - 1, hour := 23, minute := 59, second := 59,
                     month := following_month now, year := following_year now\<rparr>))
       \<and> (d = 1 \<longrightarrow>
            schedule_device_reset d now =
              Inr (now\<lparr>day := days_in_month (year now) (month now),
                     hour := 23, minute := 59, second := 59\<rparr>)
            \<and> dt_le now (now\<lparr>day := days_in_month (year now) (month now),
                     hour := 23, minute := 59, second := 59\<rparr>))"
      by blast
  qed
  have D: "day_exists (year now) (month now) d \<and> already_passed d now
        \<and> \<not> (day_exists (following_year now) (following_month now) d
               \<and> following_year now \<le> 9999) \<longrightarrow>
       schedule_user_reset d now = Inl ValueError
       \<and> schedule_device_reset d now = Inl ValueError"
    using u v by simp
  from A B C D show ?thesis by blast
qed

text \<open>
  On 24 December 2025 at 00:00:03 the user's day 24 has passed: the target is 24 January
  2026, and the device's day 1 gives 31 December 23:59:59.  On 10 February day 24 is
  still ahead: 24 February for the user, 23 February 23:59:59 for the device.  On 1 May
  at 00:00:00.5 the device's day 1 gives 30 April 23:59:59.5, one second before \<open>now\<close>.
\<close>

theorem schedulers_next_target_witness:
  "schedule_user_reset 24 (ex_now 2025 12 24 0 0 3 123) = Inr (ex_now 2026 1 24 0 0 0 123)
   \<and> dt_less (ex_now 2025 12 24 0 0 3 123) (ex_now 2026 1 24 0 0 0 123)
   \<and> schedule_device_reset 1 (ex_now 2025 12 24 0 0 3 123) =
       Inr (ex_now 2025 12 31 23 59 59 123)
   \<and> dt_le (ex_now 2025 12 24 0 0 3 123) (ex_now 2025 12 31 23 59 59 123)
   \<and> schedule_user_reset 24 (ex_now 2025 2 10 8 0 0 0) = Inr (ex_now 2025 2 24 0 0 0 0)
   \<and> dt_le (ex_now 2025 2 10 8 0 0 0) (ex_now 2025 2 24 0 0 0 0)
   \<and> schedule_device_reset 24 (ex_now 2025 2 10 8 0 0 0) =
       Inr (ex_now 2025 2 23 23 59 59 0)
   \<and> dt_le (ex_now 2025 2 10 8 0 0 0) (ex_now 2025 2 23 23 59 59 0)
   \<and> schedule_device_reset 1 (ex_now 2025 5 1 0 0 0 500000) =
       Inr (ex_now 2025 4 30 23 59 59 500000)
   \<and> dt_less (ex_now 2025 4 30 23 59 59 500000) (ex_now 2025 5 1 0 0 0 500000)"
proof -
  have v1: "valid_datetime (ex_now 2025 12 24 0 0 3 123)"
    and v2: "valid_datetime (ex_now 2025 2 10 8 0 0 0)"
    and v3: "valid_datetime (ex_now 2025 5 1 0 0 0 500000)"
    by (simp_all add: valid_datetime_def ex_now_def days_in_month_def is_leap_def)
  note defs = ex_now_def day_exists_def days_in_month_def is_leap_def already_passed_def
    following_year_def following_month_def
  have a: "schedule_user_reset 24 (ex_now 2025 12 24 0 0 3 123) =
             Inr (ex_now 2026 1 24 0 0 0 123)
           \<and> dt_less (ex_now 2025 12 24 0 0 3 123) (ex_now 2026 1 24 0 0 0 123)"
    using schedulers_next_target [OF v1, of 24, THEN conjunct2, THEN conjunct2, THEN conjunct1]
    by (simp add: defs)
  have b: "schedule_device_reset 1 (ex_now 2025 12 24 0 0 3 123) =
             Inr (ex_now 2025 12 31 23 59 59 123)
           \<and> dt_le (ex_now 2025 12 24 0 0 3 123) (ex_now 2025 12 31 23 59 59 123)"
    using schedulers_next_target [OF v1, of 1, THEN conjunct2, THEN conjunct2, THEN conjunct1]
    by (simp add: defs)
  have c: "schedule_user_reset 24 (ex_now 2025 2 10 8 0 0 0) = Inr (ex_now 2025 2 24 0 0 0 0)
           \<and> dt_le (ex_now 2025 2 10 8 0 0 0) (ex_now 2025 2 24 0 0 0 0)
           \<and> schedule_device_reset 24 (ex_now 2025 2 10 8 0 0 0) =
               Inr (ex_now 2025 2 23 23 59 59 0)
           \<and> dt_le (ex_now 2025 2 10 8 0 0 0) (ex_now 2025 2 23 23 59 59 0)"
    using schedulers_next_target [OF v2, of 24, THEN conjunct2, THEN conjunct1]
    by (simp add: defs)
  have d: "schedule_device_reset 1 (ex_now 2025 5 1 0 0 0 500000) =
             Inr (ex_now 2025 4 30 23 59 59 500000)
           \<and> dt_less (ex_now 2025 4 30 23 59 59 500000) (ex_now 2025 5 1 0 0 0 500000)"
    using schedulers_next_target [OF v3, of 1, THEN conjunct2, THEN conjunct1]
    by (simp add: defs)
  from a b c d show ?thesis by simp
qed

text \<open>
  Claim C6 as stated fails: day 31 on 10 April, and day 31 rolled over from 31 January
  to February, raise \<open>ValueError\<close> instead of succeeding; and on 1 May at
  00:00:00.5 the device scheduler for day 1 returns 30 April 23:59:59.5, which is before
  \<open>now\<close>.
\<close>

theorem schedulers_day_out_of_range:
  "valid_datetime (ex_now 2025 4 10 12 0 0 0)
   \<and> schedule_user_reset 31 (ex_now 2025 4 10 12 0 0 0) = Inl ValueError
   \<and> schedule_device_reset 31 (ex_now 2025 4 10 12 0 0 0) = Inl ValueError
   \<and> valid_datetime (ex_now 2025 1 31 0 0 3 0)
   \<and> schedule_user_reset 31 (ex_now 2025 1 31 0 0 3 0) = Inl ValueError
   \<and> valid_datetime (ex_now 2025 5 1 0 0 0 500000)
   \<and> schedule_device_reset 1 (ex_now 2025 5 1 0 0 0 500000) =
       Inr (ex_now 2025 4 30 23 59 59 500000)
   \<and> dt_less (ex_now 2025 4 30 23 59 59 500000) (ex_now 2025 5 1 0 0 0 500000)"
  by (simp add: schedule_user_reset_def schedule_device_reset_def checked_def
        valid_datetime_def ex_now_def days_in_month_def is_leap_def dt_less_def
        minus_one_second_def)

end
